theory Spec2Isabelle
  imports Main
begin

section \<open>The counter transaction client (src/app/lib/transactions.ts)\<close>

text \<open>
  The module builds a sponsored transaction for an on-chain counter, has it signed, posts it
  to a sponsorship backend and waits for its confirmation. Everything it talks to (the Aptos
  SDK, the signer, \<open>fetch\<close>, the console) lives outside the module. The embedding
  therefore passes these collaborators in as an environment of functions, turns every
  \<open>throw\<close> and every rejected promise into a value \<open>Inl e\<close>, and records every call that
  leaves the module in a trace, in program order. An \<open>await\<close> is sequential composition:
  each stage starts only after the previous one has delivered its value.
\<close>

subsection \<open>Values exchanged with the collaborators\<close>

datatype CounterAction = increment | decrement

text \<open>A JavaScript \<open>Error\<close>, identified by its message.\<close>

datatype js_error = Error string

type_synonym bytes = "nat list"

text \<open>
  \<open>aptos.transaction.build.simple\<close> receives the sender either as the caller's string
  (custodial flow) or as the object made by \<open>AccountAddress.from\<close> (native flow).
\<close>

type_synonym account_address = bytes

datatype sender_input = SenderString string | SenderAddress account_address

text \<open>
  The argument object of \<open>aptos.transaction.build.simple\<close>. A property that the source
  leaves out of the object literal is \<open>None\<close>. The amount is a JavaScript number that the
  module hands on untouched; it is modelled as an integer.
\<close>

record build_request =
  sender :: sender_input
  withFeePayer :: bool
  data_function :: string
  data_typeArguments :: "string list option"
  data_functionArguments :: "int list"
  options_expireTimestamp :: "nat option"

type_synonym raw_transaction = bytes

record simple_transaction =
  rawTransaction :: raw_transaction
  feePayerAddress :: "account_address option"

record sign_params =
  address :: string
  chainType :: string
  hash :: string

record sign_output =
  signature :: string

type_synonym ed25519_public_key = bytes
type_synonym ed25519_signature = bytes

datatype account_authenticator =
    AccountAuthenticatorEd25519 ed25519_public_key ed25519_signature
  | OtherAuthenticator bytes

record wallet_output =
  authenticator :: account_authenticator

record sponsor_body =
  serializedTransaction :: string
  senderSignature :: string

record http_request =
  url :: string
  http_method :: string
  headers :: "(string \<times> string) list"
  body :: sponsor_body

text \<open>
  A value that \<open>JSON.parse\<close> can produce. A number is kept as the literal that denotes
  it: the module never computes with one, it only asks the runtime whether the number is
  falsy and what its string conversion is.
\<close>

datatype json_value =
    JNull
  | JBool bool
  | JNumber string
  | JString string
  | JArray "json_value list"
  | JObject "(string \<times> json_value) list"

text \<open>
  The parsed JSON body of the backend's answer, as the module reads it: through the
  properties \<open>details\<close> and \<open>transactionHash\<close>. The interface has
  \<open>{transactionHash: string}\<close> on success and \<open>{details?: string}\<close> on failure; the
  code reads \<open>details\<close> from whatever JSON the backend sent, so \<open>details\<close> is any JSON
  value here. A property that the body lacks reads as \<open>undefined\<close>, here \<open>None\<close>; a
  body that is a number, a string, a boolean or an array lacks both.
\<close>

record json_body =
  details :: "json_value option"
  transactionHash :: "string option"

text \<open>
  \<open>response.json()\<close> rejects when the body is not JSON. A body that is the JSON
  \<open>null\<close> parses, but the property read that follows in either flow, with no call in
  between, throws a \<open>TypeError\<close>. Both cases end the run at the same point with an error
  that the read raised, and both are \<open>Inl\<close> of that error here.
\<close>

record http_response =
  ok :: bool
  json :: "js_error + json_body"

record executed_transaction =
  success :: bool

record view_payload =
  view_function :: string
  view_typeArguments :: "string list"
  view_functionArguments :: "string list"

datatype move_value = MoveBool bool | MoveNumber nat | MoveString string

text \<open>
  The results of JavaScript's \<open>Number(...)\<close> that a counter can give: \<open>NaN\<close> or a
  double with an integer value. The module does no arithmetic on it.
\<close>

datatype js_number = NaN | Finite int

subsection \<open>The environment\<close>

text \<open>
  \<open>CONTRACT_ADDRESS\<close>, \<open>toHex\<close> and the client \<open>aptos\<close> are imported from
  \<open>./aptos\<close>; the other entries come from \<open>@aptos-labs/ts-sdk\<close> and from the JavaScript
  runtime. None of them is defined in this module, so each is a parameter. Serialisers and
  the signing-message function are pure; whatever may throw or reject returns a sum.
  \<open>Date_now\<close> is the clock reading in milliseconds taken by the one \<open>Date.now()\<close> of a
  call. The last three entries are the runtime's conversions where the embedding does not
  spell them out: \<open>StringToNumber\<close> is \<open>Number\<close> on the strings that are not the
  decimal digits of a 64-bit value, \<open>number_is_zero\<close> tells whether a JSON number literal
  denotes zero, and \<open>number_to_string\<close> is the string conversion of the number it
  denotes.
\<close>

record sdk =
  CONTRACT_ADDRESS :: string
  toHex :: "bytes \<Rightarrow> string"
  Date_now :: nat
  AccountAddress_from :: "string \<Rightarrow> js_error + account_address"
  build_simple :: "build_request \<Rightarrow> js_error + simple_transaction"
  generateSigningMessageForTransaction :: "simple_transaction \<Rightarrow> bytes"
  new_Ed25519PublicKey :: "string \<Rightarrow> js_error + ed25519_public_key"
  new_Ed25519Signature :: "string \<Rightarrow> js_error + ed25519_signature"
  transaction_bcsToHex :: "simple_transaction \<Rightarrow> string"
  authenticator_bcsToHex :: "account_authenticator \<Rightarrow> string"
  fetch :: "http_request \<Rightarrow> js_error + http_response"
  waitForTransaction :: "string option \<Rightarrow> js_error + executed_transaction"
  view :: "view_payload \<Rightarrow> js_error + move_value list"
  StringToNumber :: "string \<Rightarrow> js_number"
  number_is_zero :: "string \<Rightarrow> bool"
  number_to_string :: "string \<Rightarrow> string"

subsection \<open>Traces and sequencing\<close>

datatype event =
    Call_AccountAddress_from string
  | Call_build_simple build_request
  | Call_signRawHash sign_params
  | Call_signTransaction simple_transaction
  | Call_new_Ed25519PublicKey string
  | Call_new_Ed25519Signature string
  | Call_fetch http_request
  | Call_response_json
  | Call_waitForTransaction "string option"
  | Call_view view_payload
  | Call_Number "move_value option"
  | Console_log string
  | Console_error string

text \<open>A computation yields the calls it made and either the thrown error or its value.\<close>

type_synonym 'a io = "event list \<times> (js_error + 'a)"

definition return_io :: "'a \<Rightarrow> 'a io" where
  "return_io x = ([], Inr x)"

definition throw :: "js_error \<Rightarrow> 'a io" where
  "throw e = ([], Inl e)"

definition call :: "event \<Rightarrow> js_error + 'a \<Rightarrow> 'a io" where
  "call ev r = ([ev], r)"

definition bind :: "'a io \<Rightarrow> ('a \<Rightarrow> 'b io) \<Rightarrow> 'b io" where
  "bind m f =
     (case m of
        (t, Inl e) \<Rightarrow> (t, Inl e)
      | (t, Inr x) \<Rightarrow> (case f x of (t', r) \<Rightarrow> (t @ t', r)))"

definition try_catch :: "'a io \<Rightarrow> (js_error \<Rightarrow> 'a io) \<Rightarrow> 'a io" where
  "try_catch m h =
     (case m of
        (t, Inl e) \<Rightarrow> (case h e of (t', r) \<Rightarrow> (t @ t', r))
      | (t, Inr x) \<Rightarrow> (t, Inr x))"

subsection \<open>String helpers of the runtime\<close>

text \<open>
  \<open>s.startsWith(p)\<close>, \<open>s.slice(n)\<close> for \<open>n\<close> not negative, and \<open>s.length\<close>. A
  JavaScript string is a sequence of UTF-16 code units and \<open>length\<close> counts them; a
  \<open>string\<close> here is a list of characters. The two agree on the ASCII text that keys,
  signatures and addresses are made of.
\<close>

definition startsWith :: "string \<Rightarrow> string \<Rightarrow> bool" where
  "startsWith s p = (take (length p) s = p)"

definition slice :: "string \<Rightarrow> nat \<Rightarrow> string" where
  "slice s n = drop n s"

subsection \<open>Conversions of the runtime\<close>

text \<open>
  \<open>ToBoolean\<close> decides \<open>||\<close> and \<open>!\<close>: \<open>null\<close>, \<open>false\<close>, zero and the empty
  string are falsy, every array and every object is truthy.
\<close>

fun ToBoolean :: "sdk \<Rightarrow> json_value \<Rightarrow> bool" where
  "ToBoolean env JNull = False"
| "ToBoolean env (JBool b) = b"
| "ToBoolean env (JNumber n) = (\<not> number_is_zero env n)"
| "ToBoolean env (JString s) = (s \<noteq> [])"
| "ToBoolean env (JArray vs) = True"
| "ToBoolean env (JObject fs) = True"

fun join_comma :: "string list \<Rightarrow> string" where
  "join_comma [] = []"
| "join_comma [s] = s"
| "join_comma (s # t # ss) = s @ '','' @ join_comma (t # ss)"

fun first_error :: "(js_error + string) list \<Rightarrow> js_error + string list" where
  "first_error [] = Inr []"
| "first_error (Inl e # rs) = Inl e"
| "first_error (Inr s # rs) =
     (case first_error rs of Inl e \<Rightarrow> Inl e | Inr ss \<Rightarrow> Inr (s # ss))"

text \<open>
  \<open>ToString\<close>, which \<open>new Error(message)\<close> applies to its argument. An array is joined
  with commas, a \<open>null\<close> element giving the empty string. An object parsed from JSON
  gives \<open>[object Object]\<close>, unless it has a property \<open>toString\<close> of its own: that
  property is not a function, the inherited \<open>valueOf\<close> returns the object, and the
  conversion throws a \<open>TypeError\<close>, whose message is the engine's (V8's here).
\<close>

fun ToString :: "sdk \<Rightarrow> json_value \<Rightarrow> js_error + string" where
  "ToString env JNull = Inr ''null''"
| "ToString env (JBool b) = Inr (if b then ''true'' else ''false'')"
| "ToString env (JNumber n) = Inr (number_to_string env n)"
| "ToString env (JString s) = Inr s"
| "ToString env (JArray vs) =
     (case first_error (map (\<lambda>v. if v = JNull then Inr [] else ToString env v) vs) of
        Inl e \<Rightarrow> Inl e
      | Inr ss \<Rightarrow> Inr (join_comma ss))"
| "ToString env (JObject fs) =
     (if ''toString'' \<in> set (map fst fs)
      then Inl (Error ''Cannot convert object to primitive value'')
      else Inr ''[object Object]'')"

text \<open>
  \<open>Number\<close> on what a view call returns. The digits of a value below \<open>2^64\<close> give the
  double nearest to it, ties going to the even significand of 53 bits; \<open>bitlen\<close> is the
  number of binary digits. \<open>Number(undefined)\<close> is \<open>NaN\<close>. On the booleans, numbers
  and strings that a view call returns \<open>Number\<close> never throws.
\<close>

fun bitlen :: "nat \<Rightarrow> nat" where
  "bitlen n = (if n = 0 then 0 else Suc (bitlen (n div 2)))"

declare bitlen.simps [simp del]

definition round_to_double :: "nat \<Rightarrow> nat" where
  "round_to_double n =
     (if n < 2 ^ 53 then n
      else let e = bitlen n - 53;
               q = n div 2 ^ e;
               r = n mod 2 ^ e;
               h = 2 ^ (e - 1)
           in 2 ^ e * (if r < h \<or> (r = h \<and> even q) then q else q + 1))"

definition is_digit :: "char \<Rightarrow> bool" where
  "is_digit c = (c \<in> set ''0123456789'')"

definition digit_value :: "char \<Rightarrow> nat" where
  "digit_value c = of_char c - 48"

definition decimal_value :: "string \<Rightarrow> nat option" where
  "decimal_value s =
     (if s \<noteq> [] \<and> list_all is_digit s
      then Some (foldl (\<lambda>a c. 10 * a + digit_value c) 0 s) else None)"

definition Number_js :: "sdk \<Rightarrow> move_value option \<Rightarrow> js_number" where
  "Number_js env v =
     (case v of
        None \<Rightarrow> NaN
      | Some (MoveBool b) \<Rightarrow> Finite (if b then 1 else 0)
      | Some (MoveNumber n) \<Rightarrow> Finite (int n)
      | Some (MoveString s) \<Rightarrow>
          (case decimal_value s of
             None \<Rightarrow> StringToNumber env s
           | Some n \<Rightarrow> if n < 2 ^ 64 then Finite (int (round_to_double n))
                       else StringToNumber env s))"

subsection \<open>getCounterFunction (lines 28-31)\<close>

definition getCounterFunction :: "sdk \<Rightarrow> CounterAction \<Rightarrow> string" where
  "getCounterFunction env action =
     (let functionName = (if action = increment then ''add_counter'' else ''subtract_counter'')
      in CONTRACT_ADDRESS env @ ''::counter::'' @ functionName)"

subsection \<open>submitCounterTransaction (lines 36-120)\<close>

text \<open>
  The expression \<open>s.startsWith('0x') ? s.slice(2) : s\<close>, which the source applies to the
  public key (line 67) and to the signature (line 76).
\<close>

definition strip0x :: "string \<Rightarrow> string" where
  "strip0x s = (if startsWith s ''0x'' then slice s 2 else s)"

text \<open>Lines 67-72: the value of the variable \<open>cleanPublicKey\<close> when the key is built.\<close>

definition cleanPublicKey :: "string \<Rightarrow> string" where
  "cleanPublicKey publicKeyHex =
     (let clean = strip0x publicKeyHex
      in if length clean = 66 then slice clean 2 else clean)"

text \<open>
  The expression \<open>error.details || 'Failed to sponsor transaction'\<close> of lines 101 and 166:
  \<open>||\<close> yields its left operand when that is truthy and its right operand otherwise,
  \<open>undefined\<close> being falsy.
\<close>

definition details_or_fallback :: "sdk \<Rightarrow> json_body \<Rightarrow> json_value" where
  "details_or_fallback env error =
     (case details error of
        None \<Rightarrow> JString ''Failed to sponsor transaction''
      | Some d \<Rightarrow> if ToBoolean env d then d else JString ''Failed to sponsor transaction'')"

text \<open>\<open>new Error(message)\<close>: the message is converted to a string, which may throw.\<close>

definition new_Error :: "sdk \<Rightarrow> json_value \<Rightarrow> js_error io" where
  "new_Error env message =
     (case ToString env message of
        Inl e \<Rightarrow> throw e
      | Inr m \<Rightarrow> return_io (Error m))"

definition sponsor_request :: "string \<Rightarrow> string \<Rightarrow> http_request" where
  "sponsor_request tx sig =
     \<lparr>url = ''/api/sponsor-transaction'',
      http_method = ''POST'',
      headers = [(''Content-Type'', ''application/json'')],
      body = \<lparr>serializedTransaction = tx, senderSignature = sig\<rparr>\<rparr>"

text \<open>The action as the template strings of the \<open>console.error\<close> calls print it.\<close>

definition action_name :: "CounterAction \<Rightarrow> string" where
  "action_name action = (if action = increment then ''increment'' else ''decrement'')"

definition submitCounterTransaction ::
  "sdk \<Rightarrow> CounterAction \<Rightarrow> int \<Rightarrow> string \<Rightarrow> string \<Rightarrow>
   (sign_params \<Rightarrow> js_error + sign_output) \<Rightarrow> string option io" where
  "submitCounterTransaction env action amount walletAddress publicKeyHex signRawHash =
     try_catch
       (let req = \<lparr>sender = SenderString walletAddress,
                   withFeePayer = True,
                   data_function = getCounterFunction env action,
                   data_typeArguments = Some [],
                   data_functionArguments = [amount],
                   options_expireTimestamp = None\<rparr>
        in bind (call (Call_build_simple req) (build_simple env req)) (\<lambda>rawTxn.
           let message = generateSigningMessageForTransaction env rawTxn;
               params = \<lparr>address = walletAddress,
                         chainType = ''aptos'',
                         hash = ''0x'' @ toHex env message\<rparr>
           in bind (call (Call_signRawHash params) (signRawHash params)) (\<lambda>signed.
              let rawSignature = signature signed;
                  key = cleanPublicKey publicKeyHex;
                  sigHex = strip0x rawSignature
              in bind (call (Call_new_Ed25519PublicKey key) (new_Ed25519PublicKey env key)) (\<lambda>pk.
                 bind (call (Call_new_Ed25519Signature sigHex) (new_Ed25519Signature env sigHex)) (\<lambda>sg.
                 let senderAuthenticator = AccountAuthenticatorEd25519 pk sg;
                     simpleTransaction = \<lparr>rawTransaction = rawTransaction rawTxn,
                                          feePayerAddress = None\<rparr>;
                     serializedTransaction = transaction_bcsToHex env simpleTransaction;
                     serializedSignature = authenticator_bcsToHex env senderAuthenticator;
                     post = sponsor_request serializedTransaction serializedSignature
                 in bind (call (Call_fetch post) (fetch env post)) (\<lambda>response.
                    bind (if \<not> ok response
                          then bind (call Call_response_json (json response)) (\<lambda>error.
                                 bind (new_Error env (details_or_fallback env error)) (\<lambda>failure.
                                 throw failure))
                          else return_io ()) (\<lambda>_.
                    bind (call Call_response_json (json response)) (\<lambda>result.
                    bind (call (Call_waitForTransaction (transactionHash result))
                            (waitForTransaction env (transactionHash result))) (\<lambda>executed.
                    bind (if \<not> success executed then throw (Error ''Transaction failed'')
                          else return_io ()) (\<lambda>_.
                    return_io (transactionHash result)))))))))))
       (\<lambda>error.
          bind (call (Console_error (''Error submitting '' @ action_name action @ '' transaction:''))
                  (Inr ())) (\<lambda>_.
          throw error))"

subsection \<open>buildSignAndSponsorTransaction (lines 126-173)\<close>

text \<open>
  \<open>Math.floor(Date.now() / 1000)\<close> is the integer quotient of the clock reading, a whole
  number of milliseconds, by 1000. A \<open>console.log\<close> call is recorded with its label.
\<close>

definition buildSignAndSponsorTransaction ::
  "sdk \<Rightarrow> CounterAction \<Rightarrow> int \<Rightarrow> string \<Rightarrow>
   (simple_transaction \<Rightarrow> js_error + wallet_output) \<Rightarrow> string option io" where
  "buildSignAndSponsorTransaction env action amount walletAddress signTransaction =
     bind (call (Call_AccountAddress_from walletAddress) (AccountAddress_from env walletAddress))
       (\<lambda>senderAddress.
     let req = \<lparr>sender = SenderAddress senderAddress,
                withFeePayer = True,
                data_function = getCounterFunction env action,
                data_typeArguments = None,
                data_functionArguments = [amount],
                options_expireTimestamp = Some (Date_now env div 1000 + 5 * 60)\<rparr>
     in bind (call (Call_build_simple req) (build_simple env req)) (\<lambda>simpleTx.
        bind (call (Console_log ''Native wallet - Transaction built, requesting signature'')
                (Inr ())) (\<lambda>_.
        bind (call (Call_signTransaction simpleTx) (signTransaction simpleTx)) (\<lambda>senderSig.
        bind (call (Console_log ''Native wallet - Transaction signed, sending for sponsorship'')
                (Inr ())) (\<lambda>_.
        let post = sponsor_request (transaction_bcsToHex env simpleTx)
                     (authenticator_bcsToHex env (authenticator senderSig))
        in bind (call (Call_fetch post) (fetch env post)) (\<lambda>response.
           bind (if \<not> ok response
                 then bind (call Call_response_json (json response)) (\<lambda>error.
                        bind (new_Error env (details_or_fallback env error)) (\<lambda>failure.
                        throw failure))
                 else return_io ()) (\<lambda>_.
           bind (call Call_response_json (json response)) (\<lambda>result.
           bind (call (Console_log ''Native wallet - Transaction sponsored and submitted:'')
                   (Inr ())) (\<lambda>_.
           return_io (transactionHash result))))))))))"

subsection \<open>submitCounterTransactionNative (lines 180-218)\<close>

text \<open>
  \<open>!walletAddress\<close> and \<open>!transactionHash\<close> are JavaScript falsiness tests: a string is
  falsy exactly when it is empty, and \<open>undefined\<close> is falsy.
\<close>

definition falsy_string :: "string \<Rightarrow> bool" where
  "falsy_string s = (s = [])"

definition falsy_opt :: "string option \<Rightarrow> bool" where
  "falsy_opt v = (case v of None \<Rightarrow> True | Some s \<Rightarrow> falsy_string s)"

definition submitCounterTransactionNative ::
  "sdk \<Rightarrow> CounterAction \<Rightarrow> int \<Rightarrow> string \<Rightarrow>
   (simple_transaction \<Rightarrow> js_error + wallet_output) \<Rightarrow> string option io" where
  "submitCounterTransactionNative env action amount walletAddress signTransaction =
     try_catch
       (bind (if falsy_string walletAddress then throw (Error ''No wallet address provided'')
              else return_io ()) (\<lambda>_.
        bind (buildSignAndSponsorTransaction env action amount walletAddress signTransaction)
          (\<lambda>transactionHash.
        bind (if falsy_opt transactionHash
              then throw (Error ''Unable to get transaction hash from backend'')
              else return_io ()) (\<lambda>_.
        bind (call (Console_log ''Native wallet - Waiting for transaction confirmation:'')
                (Inr ())) (\<lambda>_.
        bind (call (Call_waitForTransaction transactionHash)
                (waitForTransaction env transactionHash)) (\<lambda>executedTransaction.
        bind (call (Console_log ''Native wallet - Transaction confirmed:'') (Inr ())) (\<lambda>_.
        bind (if \<not> success executedTransaction
              then throw (Error ''Transaction failed on-chain'')
              else return_io ()) (\<lambda>_.
        return_io transactionHash))))))))
       (\<lambda>error.
          bind (call (Console_error (''Error submitting '' @ action_name action
                        @ '' transaction with native wallet:'')) (Inr ())) (\<lambda>_.
          throw error))"

subsection \<open>fetchCounterValue (lines 223-238)\<close>

text \<open>The function returns \<open>null\<close> as \<open>None\<close>.\<close>

definition fetchCounterValue :: "sdk \<Rightarrow> string \<Rightarrow> js_number option io" where
  "fetchCounterValue env addr =
     try_catch
       (let payload = \<lparr>view_function = CONTRACT_ADDRESS env @ ''::counter::get_counter'',
                       view_typeArguments = [],
                       view_functionArguments = [addr]\<rparr>
        in bind (call (Call_view payload) (view env payload)) (\<lambda>result.
           let first = (case result of [] \<Rightarrow> None | v # _ \<Rightarrow> Some v)
           in bind (call (Call_Number first) (Inr (Number_js env first))) (\<lambda>n.
              return_io (Some n))))
       (\<lambda>error.
          bind (call (Console_error ''Error fetching counter value:'') (Inr ())) (\<lambda>_.
          return_io None))"

section \<open>Observations on traces and inputs\<close>

text \<open>The requests a run has posted, in order.\<close>

fun is_fetch :: "event \<Rightarrow> bool" where
  "is_fetch (Call_fetch q) = True"
| "is_fetch _ = False"

definition posts :: "event list \<Rightarrow> event list" where
  "posts t = filter is_fetch t"

text \<open>
  What lines 99-102 and 164-167 throw for a refusal with the parsed body \<open>error\<close>: the
  \<open>Error\<close> made of \<open>error.details || 'Failed to sponsor transaction'\<close>, or the error
  that making it raised.
\<close>

definition refusal_error :: "sdk \<Rightarrow> json_body \<Rightarrow> js_error" where
  "refusal_error env error =
     (case ToString env (details_or_fallback env error) of
        Inl e \<Rightarrow> e
      | Inr m \<Rightarrow> Error m)"



section \<open>A concrete environment\<close>

text \<open>
  The end-to-end scenario of the specification: every collaborator answers, the backend
  returns the hash \<open>0xdeadbeef\<close> and the chain confirms it. The variants below change one
  collaborator each.
\<close>

definition demo_env :: sdk where
  "demo_env =
     \<lparr>CONTRACT_ADDRESS = ''0xC0'',
      toHex = (\<lambda>bs. concat (map (\<lambda>b. if b = 0 then ''00'' else ''01'') bs)),
      Date_now = 1700000000123,
      AccountAddress_from = (\<lambda>s. Inr [10, 188]),
      build_simple = (\<lambda>r. Inr \<lparr>rawTransaction = [1, 0], feePayerAddress = Some [0]\<rparr>),
      generateSigningMessageForTransaction = (\<lambda>t. rawTransaction t),
      new_Ed25519PublicKey =
        (\<lambda>s. if length s = 64 then Inr [7] else Inl (Error ''bad public key length'')),
      new_Ed25519Signature = (\<lambda>s. Inr [9]),
      transaction_bcsToHex = (\<lambda>t. ''0xaa''),
      authenticator_bcsToHex = (\<lambda>a. ''0xbb''),
      fetch = (\<lambda>q. Inr \<lparr>ok = True,
                         json = Inr \<lparr>details = None, transactionHash = Some ''0xdeadbeef''\<rparr>\<rparr>),
      waitForTransaction = (\<lambda>h. Inr \<lparr>success = True\<rparr>),
      view = (\<lambda>p. Inr [MoveString ''5'']),
      StringToNumber = (\<lambda>s. NaN),
      number_is_zero = (\<lambda>n. n = ''0''),
      number_to_string = (\<lambda>n. n)\<rparr>"

definition demo_key :: string where
  "demo_key = ''0x00'' @ replicate 64 (CHR ''a'')"

definition demo_signRawHash :: "sign_params \<Rightarrow> js_error + sign_output" where
  "demo_signRawHash p = Inr \<lparr>signature = ''0xcafe''\<rparr>"

text \<open>A signer that rejects.\<close>

definition rejecting_signRawHash :: "sign_params \<Rightarrow> js_error + sign_output" where
  "rejecting_signRawHash p = Inl (Error ''User rejected the request'')"

definition demo_signTransaction :: "simple_transaction \<Rightarrow> js_error + wallet_output" where
  "demo_signTransaction t = Inr \<lparr>authenticator = OtherAuthenticator [4, 2]\<rparr>"

text \<open>The backend refuses with the given body.\<close>

definition refusing_env :: "json_value option \<Rightarrow> sdk" where
  "refusing_env d =
     demo_env\<lparr>fetch := (\<lambda>q. Inr \<lparr>ok = False,
                                   json = Inr \<lparr>details = d, transactionHash = None\<rparr>\<rparr>)\<rparr>"

text \<open>The backend refuses and its body is not JSON.\<close>

definition garbled_env :: sdk where
  "garbled_env =
     demo_env\<lparr>fetch := (\<lambda>q. Inr \<lparr>ok = False, json = Inl (Error ''Unexpected token'')\<rparr>)\<rparr>"

text \<open>The backend accepts and answers with the given hash property.\<close>

definition hash_env :: "string option \<Rightarrow> sdk" where
  "hash_env h =
     demo_env\<lparr>fetch := (\<lambda>q. Inr \<lparr>ok = True,
                                   json = Inr \<lparr>details = None, transactionHash = h\<rparr>\<rparr>)\<rparr>"

text \<open>The chain finalises the transaction as failed.\<close>

definition reverting_env :: sdk where
  "reverting_env = demo_env\<lparr>waitForTransaction := (\<lambda>h. Inr \<lparr>success = False\<rparr>)\<rparr>"

text \<open>The view call returns the given values.\<close>

definition view_env :: "move_value list \<Rightarrow> sdk" where
  "view_env vs = demo_env\<lparr>view := (\<lambda>p. Inr vs)\<rparr>"

text \<open>The network is down: \<open>fetch\<close> and the view call reject.\<close>

definition offline_env :: sdk where
  "offline_env =
     demo_env\<lparr>fetch := (\<lambda>q. Inl (Error ''Failed to fetch'')),
              view := (\<lambda>p. Inl (Error ''Failed to fetch''))\<rparr>"

text \<open>The calls both scenario runs make up to and including the request to the backend.\<close>

definition demo_custodial_calls :: "event list" where
  "demo_custodial_calls =
     [Call_build_simple \<lparr>sender = SenderString ''0xABC'', withFeePayer = True,
        data_function = ''0xC0::counter::add_counter'', data_typeArguments = Some [],
        data_functionArguments = [5], options_expireTimestamp = None\<rparr>,
      Call_signRawHash \<lparr>address = ''0xABC'', chainType = ''aptos'', hash = ''0x0100''\<rparr>,
      Call_new_Ed25519PublicKey (replicate 64 (CHR ''a'')),
      Call_new_Ed25519Signature ''cafe'',
      Call_fetch (sponsor_request ''0xaa'' ''0xbb'')]"

definition demo_native_calls :: "event list" where
  "demo_native_calls =
     [Call_AccountAddress_from ''0xABC'',
      Call_build_simple \<lparr>sender = SenderAddress [10, 188], withFeePayer = True,
        data_function = ''0xC0::counter::add_counter'', data_typeArguments = None,
        data_functionArguments = [5], options_expireTimestamp = Some 1700000300\<rparr>,
      Console_log ''Native wallet - Transaction built, requesting signature'',
      Call_signTransaction \<lparr>rawTransaction = [1, 0], feePayerAddress = Some [0]\<rparr>,
      Console_log ''Native wallet - Transaction signed, sending for sponsorship'',
      Call_fetch (sponsor_request ''0xaa'' ''0xbb'')]"

definition custodial_logged :: event where
  "custodial_logged = Console_error ''Error submitting increment transaction:''"

definition native_logged :: event where
  "native_logged = Console_error ''Error submitting increment transaction with native wallet:''"

section \<open>Sequencing laws\<close>

lemma fst_bind: "fst (bind m f) = fst m @ (case snd m of Inl e \<Rightarrow> [] | Inr x \<Rightarrow> fst (f x))"
  by (cases m) (simp add: bind_def split: sum.splits prod.splits)

lemma snd_bind: "snd (bind m f) = (case snd m of Inl e \<Rightarrow> Inl e | Inr x \<Rightarrow> snd (f x))"
  by (cases m) (simp add: bind_def split: sum.splits prod.splits)

lemma fst_try_catch:
  "fst (try_catch m h) = fst m @ (case snd m of Inl e \<Rightarrow> fst (h e) | Inr x \<Rightarrow> [])"
  by (cases m) (simp add: try_catch_def split: sum.splits prod.splits)

lemma snd_try_catch:
  "snd (try_catch m h) = (case snd m of Inl e \<Rightarrow> snd (h e) | Inr x \<Rightarrow> Inr x)"
  by (cases m) (simp add: try_catch_def split: sum.splits prod.splits)

lemma fst_call: "fst (call ev r) = [ev]"
  by (simp add: call_def)

lemma snd_call: "snd (call ev r) = r"
  by (simp add: call_def)

lemma fst_throw: "fst (throw e) = []"
  by (simp add: throw_def)

lemma snd_throw: "snd (throw e) = Inl e"
  by (simp add: throw_def)

lemma fst_return_io: "fst (return_io x) = []"
  by (simp add: return_io_def)

lemma snd_return_io: "snd (return_io x) = Inr x"
  by (simp add: return_io_def)

lemmas io_simps = fst_bind snd_bind fst_try_catch snd_try_catch fst_call snd_call
  fst_throw snd_throw fst_return_io snd_return_io

lemmas flow_defs = submitCounterTransaction_def submitCounterTransactionNative_def
  buildSignAndSponsorTransaction_def Let_def

section \<open>The runs of the two submission flows\<close>

text \<open>
  Each flow is a straight line of stages, and a stage that throws ends it. The lemmas below
  unfold the sequencing once and for all: they list, for every stage that can fail, the trace
  and the outcome of the run that ends there.
\<close>

lemma submitCounterTransaction_run:
  "submitCounterTransaction env action amount walletAddress publicKeyHex signRawHash =
     (let req = \<lparr>sender = SenderString walletAddress, withFeePayer = True,
                 data_function = getCounterFunction env action, data_typeArguments = Some [],
                 data_functionArguments = [amount], options_expireTimestamp = None\<rparr>;
          logged = Console_error (''Error submitting '' @ action_name action @ '' transaction:'');
          t1 = [Call_build_simple req]
      in (case build_simple env req of
            Inl e \<Rightarrow> (t1 @ [logged], Inl e)
          | Inr rawTxn \<Rightarrow>
     (let params = \<lparr>address = walletAddress, chainType = ''aptos'',
                    hash = ''0x'' @ toHex env (generateSigningMessageForTransaction env rawTxn)\<rparr>;
          t2 = t1 @ [Call_signRawHash params]
      in (case signRawHash params of
            Inl e \<Rightarrow> (t2 @ [logged], Inl e)
          | Inr signed \<Rightarrow>
     (let key = cleanPublicKey publicKeyHex;
          sigHex = strip0x (signature signed);
          t3 = t2 @ [Call_new_Ed25519PublicKey key]
      in (case new_Ed25519PublicKey env key of
            Inl e \<Rightarrow> (t3 @ [logged], Inl e)
          | Inr pk \<Rightarrow>
     (let t4 = t3 @ [Call_new_Ed25519Signature sigHex]
      in (case new_Ed25519Signature env sigHex of
            Inl e \<Rightarrow> (t4 @ [logged], Inl e)
          | Inr sg \<Rightarrow>
     (let post = sponsor_request
                   (transaction_bcsToHex env
                      \<lparr>rawTransaction = rawTransaction rawTxn, feePayerAddress = None\<rparr>)
                   (authenticator_bcsToHex env (AccountAuthenticatorEd25519 pk sg));
          t5 = t4 @ [Call_fetch post]
      in (case fetch env post of
            Inl e \<Rightarrow> (t5 @ [logged], Inl e)
          | Inr response \<Rightarrow>
     (let t6 = t5 @ [Call_response_json]
      in (case json response of
            Inl e \<Rightarrow> (t6 @ [logged], Inl e)
          | Inr b \<Rightarrow>
     (if \<not> ok response then (t6 @ [logged], Inl (refusal_error env b))
      else
     (let t7 = t6 @ [Call_waitForTransaction (transactionHash b)]
      in (case waitForTransaction env (transactionHash b) of
            Inl e \<Rightarrow> (t7 @ [logged], Inl e)
          | Inr executed \<Rightarrow>
     (if \<not> success executed then (t7 @ [logged], Inl (Error ''Transaction failed''))
      else (t7, Inr (transactionHash b))))))))))))))))))"
  by (simp add: prod_eq_iff flow_defs io_simps new_Error_def refusal_error_def
      split: sum.splits)

lemma submitCounterTransactionNative_run:
  "submitCounterTransactionNative env action amount walletAddress signTransaction =
     (let logged = Console_error (''Error submitting '' @ action_name action
                     @ '' transaction with native wallet:'')
      in if falsy_string walletAddress
         then ([logged], Inl (Error ''No wallet address provided''))
         else
     (let t1 = [Call_AccountAddress_from walletAddress]
      in (case AccountAddress_from env walletAddress of
            Inl e \<Rightarrow> (t1 @ [logged], Inl e)
          | Inr senderAddress \<Rightarrow>
     (let req = \<lparr>sender = SenderAddress senderAddress, withFeePayer = True,
                 data_function = getCounterFunction env action, data_typeArguments = None,
                 data_functionArguments = [amount],
                 options_expireTimestamp = Some (Date_now env div 1000 + 5 * 60)\<rparr>;
          t2 = t1 @ [Call_build_simple req]
      in (case build_simple env req of
            Inl e \<Rightarrow> (t2 @ [logged], Inl e)
          | Inr simpleTx \<Rightarrow>
     (let t3 = t2 @ [Console_log ''Native wallet - Transaction built, requesting signature'',
                      Call_signTransaction simpleTx]
      in (case signTransaction simpleTx of
            Inl e \<Rightarrow> (t3 @ [logged], Inl e)
          | Inr senderSig \<Rightarrow>
     (let post = sponsor_request (transaction_bcsToHex env simpleTx)
                   (authenticator_bcsToHex env (authenticator senderSig));
          t4 = t3 @ [Console_log ''Native wallet - Transaction signed, sending for sponsorship'',
                      Call_fetch post]
      in (case fetch env post of
            Inl e \<Rightarrow> (t4 @ [logged], Inl e)
          | Inr response \<Rightarrow>
     (let t5 = t4 @ [Call_response_json]
      in (case json response of
            Inl e \<Rightarrow> (t5 @ [logged], Inl e)
          | Inr b \<Rightarrow>
     (if \<not> ok response then (t5 @ [logged], Inl (refusal_error env b))
      else
     (let t6 = t5 @ [Console_log ''Native wallet - Transaction sponsored and submitted:'']
      in if falsy_opt (transactionHash b)
         then (t6 @ [logged], Inl (Error ''Unable to get transaction hash from backend''))
         else
     (let t7 = t6 @ [Console_log ''Native wallet - Waiting for transaction confirmation:'',
                      Call_waitForTransaction (transactionHash b)]
      in (case waitForTransaction env (transactionHash b) of
            Inl e \<Rightarrow> (t7 @ [logged], Inl e)
          | Inr executedTransaction \<Rightarrow>
     (let t8 = t7 @ [Console_log ''Native wallet - Transaction confirmed:'']
      in if \<not> success executedTransaction
         then (t8 @ [logged], Inl (Error ''Transaction failed on-chain''))
         else (t8, Inr (transactionHash b))))))))))))))))))"
  by (simp add: prod_eq_iff flow_defs io_simps new_Error_def refusal_error_def
      split: sum.splits)

lemma fetchCounterValue_run:
  "fetchCounterValue env addr =
     (let payload = \<lparr>view_function = CONTRACT_ADDRESS env @ ''::counter::get_counter'',
                     view_typeArguments = [], view_functionArguments = [addr]\<rparr>;
          logged = Console_error ''Error fetching counter value:''
      in (case view env payload of
            Inl e \<Rightarrow> ([Call_view payload, logged], Inr None)
          | Inr result \<Rightarrow>
     (let first = (case result of [] \<Rightarrow> None | v # _ \<Rightarrow> Some v)
      in ([Call_view payload, Call_Number first], Inr (Some (Number_js env first))))))"
  by (simp add: prod_eq_iff fetchCounterValue_def Let_def io_simps split: sum.splits)

section \<open>Runs in the concrete environments\<close>

lemmas run_simps = submitCounterTransaction_run submitCounterTransactionNative_run Let_def

lemmas demo_simps = demo_env_def demo_key_def demo_signRawHash_def demo_signTransaction_def
  refusing_env_def garbled_env_def hash_env_def reverting_env_def offline_env_def
  getCounterFunction_def cleanPublicKey_def strip0x_def startsWith_def slice_def
  falsy_string_def falsy_opt_def action_name_def

lemmas trace_defs = demo_custodial_calls_def demo_native_calls_def custodial_logged_def
  native_logged_def

lemma demo_custodial_run:
  "submitCounterTransaction demo_env increment 5 ''0xABC'' demo_key demo_signRawHash =
     (demo_custodial_calls @ [Call_response_json, Call_waitForTransaction (Some ''0xdeadbeef'')],
      Inr (Some ''0xdeadbeef''))"
  by (simp add: run_simps demo_simps trace_defs)

lemma demo_native_run:
  "submitCounterTransactionNative demo_env increment 5 ''0xABC'' demo_signTransaction =
     (demo_native_calls @
        [Call_response_json,
         Console_log ''Native wallet - Transaction sponsored and submitted:'',
         Console_log ''Native wallet - Waiting for transaction confirmation:'',
         Call_waitForTransaction (Some ''0xdeadbeef''),
         Console_log ''Native wallet - Transaction confirmed:''],
      Inr (Some ''0xdeadbeef''))"
  by (simp add: run_simps demo_simps trace_defs)

lemma reverting_custodial_run:
  "submitCounterTransaction reverting_env increment 5 ''0xABC'' demo_key demo_signRawHash =
     (demo_custodial_calls @ [Call_response_json, Call_waitForTransaction (Some ''0xdeadbeef''),
        custodial_logged],
      Inl (Error ''Transaction failed''))"
  by (simp add: run_simps demo_simps trace_defs)

lemma reverting_native_run:
  "submitCounterTransactionNative reverting_env increment 5 ''0xABC'' demo_signTransaction =
     (demo_native_calls @
        [Call_response_json,
         Console_log ''Native wallet - Transaction sponsored and submitted:'',
         Console_log ''Native wallet - Waiting for transaction confirmation:'',
         Call_waitForTransaction (Some ''0xdeadbeef''),
         Console_log ''Native wallet - Transaction confirmed:'',
         native_logged],
      Inl (Error ''Transaction failed on-chain''))"
  by (simp add: run_simps demo_simps trace_defs)

lemma refusing_custodial_run:
  "submitCounterTransaction (refusing_env d) increment 5 ''0xABC'' demo_key demo_signRawHash =
     (demo_custodial_calls @ [Call_response_json, custodial_logged],
      Inl (refusal_error (refusing_env d) \<lparr>details = d, transactionHash = None\<rparr>))"
  by (simp add: run_simps demo_env_def demo_key_def demo_signRawHash_def refusing_env_def
      getCounterFunction_def cleanPublicKey_def strip0x_def startsWith_def slice_def
      action_name_def trace_defs)

lemma refusing_native_run:
  "submitCounterTransactionNative (refusing_env d) increment 5 ''0xABC'' demo_signTransaction =
     (demo_native_calls @ [Call_response_json, native_logged],
      Inl (refusal_error (refusing_env d) \<lparr>details = d, transactionHash = None\<rparr>))"
  by (simp add: run_simps demo_env_def demo_signTransaction_def refusing_env_def
      getCounterFunction_def falsy_string_def action_name_def trace_defs)

lemma garbled_custodial_run:
  "submitCounterTransaction garbled_env increment 5 ''0xABC'' demo_key demo_signRawHash =
     (demo_custodial_calls @ [Call_response_json, custodial_logged],
      Inl (Error ''Unexpected token''))"
  by (simp add: run_simps demo_simps trace_defs)

lemma offline_custodial_run:
  "submitCounterTransaction offline_env increment 5 ''0xABC'' demo_key demo_signRawHash =
     (demo_custodial_calls @ [custodial_logged], Inl (Error ''Failed to fetch''))"
  by (simp add: run_simps demo_simps trace_defs)

lemma offline_native_run:
  "submitCounterTransactionNative offline_env increment 5 ''0xABC'' demo_signTransaction =
     (demo_native_calls @ [native_logged], Inl (Error ''Failed to fetch''))"
  by (simp add: run_simps demo_simps trace_defs)

lemma hash_native_run:
  "falsy_opt h \<Longrightarrow>
   submitCounterTransactionNative (hash_env h) increment 5 ''0xABC'' demo_signTransaction =
     (demo_native_calls @
        [Call_response_json,
         Console_log ''Native wallet - Transaction sponsored and submitted:'',
         native_logged],
      Inl (Error ''Unable to get transaction hash from backend''))"
  by (simp add: run_simps demo_env_def demo_signTransaction_def hash_env_def
      getCounterFunction_def falsy_string_def action_name_def trace_defs)

lemma empty_wallet_native_run:
  "submitCounterTransactionNative env action amount [] signTransaction =
     ([Console_error (''Error submitting '' @ action_name action
          @ '' transaction with native wallet:'')],
      Inl (Error ''No wallet address provided''))"
  by (simp add: run_simps falsy_string_def)

lemma demo_env_sel:
  "CONTRACT_ADDRESS demo_env = ''0xC0''"
  "Date_now demo_env = 1700000000123"
  "AccountAddress_from demo_env w = Inr [10, 188]"
  "waitForTransaction demo_env h = Inr \<lparr>success = True\<rparr>"
  "waitForTransaction reverting_env h = Inr \<lparr>success = False\<rparr>"
  "fetch (refusing_env d) q
     = Inr \<lparr>ok = False, json = Inr \<lparr>details = d, transactionHash = None\<rparr>\<rparr>"
  "fetch (hash_env x) q
     = Inr \<lparr>ok = True, json = Inr \<lparr>details = None, transactionHash = x\<rparr>\<rparr>"
  "fetch garbled_env q = Inr \<lparr>ok = False, json = Inl (Error ''Unexpected token'')\<rparr>"
  "fetch offline_env q = Inl (Error ''Failed to fetch'')"
  "view offline_env p = Inl (Error ''Failed to fetch'')"
  "view demo_env p = Inr [MoveString ''5'']"
  "view (view_env vs) p = Inr vs"
  "CONTRACT_ADDRESS (view_env vs) = ''0xC0''"
  "CONTRACT_ADDRESS offline_env = ''0xC0''"
  by (simp_all add: demo_env_def reverting_env_def refusing_env_def hash_env_def
      garbled_env_def offline_env_def view_env_def)

lemma demo_signing_env_facts:
  "build_simple demo_env r = Inr \<lparr>rawTransaction = [1, 0], feePayerAddress = Some [0]\<rparr>"
  "toHex demo_env (generateSigningMessageForTransaction demo_env
       \<lparr>rawTransaction = [1, 0], feePayerAddress = Some [0]\<rparr>) = ''0100''"
  by (simp_all add: demo_env_def)

section \<open>What the builder is asked for\<close>

text \<open>
  Either flow calls \<open>aptos.transaction.build.simple\<close> at most once, with the request
  below.
\<close>

lemma custodial_build_request_aux:
  "(case submitCounterTransaction env action amount walletAddress publicKeyHex signRawHash of
     (t, r) \<Rightarrow> Call_build_simple q \<in> set t \<longrightarrow>
        q = \<lparr>sender = SenderString walletAddress, withFeePayer = True,
             data_function = getCounterFunction env action, data_typeArguments = Some [],
             data_functionArguments = [amount], options_expireTimestamp = None\<rparr>)"
  by (simp add: run_simps split: sum.splits; auto)

lemma native_build_request_aux:
  "(case submitCounterTransactionNative env action amount walletAddress signTransaction of
     (t, r) \<Rightarrow> Call_build_simple q \<in> set t \<longrightarrow>
        (\<exists>senderAddress. AccountAddress_from env walletAddress = Inr senderAddress \<and>
        q = \<lparr>sender = SenderAddress senderAddress, withFeePayer = True,
             data_function = getCounterFunction env action, data_typeArguments = None,
             data_functionArguments = [amount],
             options_expireTimestamp = Some (Date_now env div 1000 + 5 * 60)\<rparr>))"
  by (simp add: run_simps split: sum.splits; auto)

lemma custodial_build_request:
  "Call_build_simple q
     \<in> set (fst (submitCounterTransaction env action amount walletAddress publicKeyHex signRawHash))
   \<Longrightarrow> q = \<lparr>sender = SenderString walletAddress, withFeePayer = True,
             data_function = getCounterFunction env action, data_typeArguments = Some [],
             data_functionArguments = [amount], options_expireTimestamp = None\<rparr>"
  using custodial_build_request_aux [where env = env and action = action and amount = amount
          and walletAddress = walletAddress and publicKeyHex = publicKeyHex
          and signRawHash = signRawHash and q = q]
  by (simp add: case_prod_beta)

lemma native_build_request:
  "Call_build_simple q
     \<in> set (fst (submitCounterTransactionNative env action amount walletAddress signTransaction))
   \<Longrightarrow> \<exists>senderAddress. AccountAddress_from env walletAddress = Inr senderAddress \<and>
        q = \<lparr>sender = SenderAddress senderAddress, withFeePayer = True,
             data_function = getCounterFunction env action, data_typeArguments = None,
             data_functionArguments = [amount],
             options_expireTimestamp = Some (Date_now env div 1000 + 5 * 60)\<rparr>"
  using native_build_request_aux [where env = env and action = action and amount = amount
          and walletAddress = walletAddress and signTransaction = signTransaction and q = q]
  by (simp add: case_prod_beta)

section \<open>Entry points and arguments\<close>

text \<open>
  C2. The action-to-entry-point mapping is exact: \<open>increment\<close> maps to
  \<open><CONTRACT_ADDRESS>::counter::add_counter\<close> and \<open>decrement\<close> to
  \<open><CONTRACT_ADDRESS>::counter::subtract_counter\<close>; and every transaction that either
  submission flow builds targets the entry point of its action and passes the amount as its
  only function argument.
\<close>

theorem entry_point_mapping_exact:
  "getCounterFunction env increment = CONTRACT_ADDRESS env @ ''::counter::add_counter''
   \<and> getCounterFunction env decrement = CONTRACT_ADDRESS env @ ''::counter::subtract_counter''
   \<and> (Call_build_simple q
         \<in> set (fst (submitCounterTransaction env action amount walletAddress publicKeyHex signRawHash))
       \<longrightarrow> data_function q = getCounterFunction env action \<and> data_functionArguments q = [amount])
   \<and> (Call_build_simple q
         \<in> set (fst (submitCounterTransactionNative env action amount walletAddress signTransaction))
       \<longrightarrow> data_function q = getCounterFunction env action \<and> data_functionArguments q = [amount])"
proof -
  have "getCounterFunction env increment = CONTRACT_ADDRESS env @ ''::counter::add_counter''"
    and "getCounterFunction env decrement = CONTRACT_ADDRESS env @ ''::counter::subtract_counter''"
    by (simp_all add: getCounterFunction_def)
  moreover have "data_function q = getCounterFunction env action \<and> data_functionArguments q = [amount]"
    if "Call_build_simple q
         \<in> set (fst (submitCounterTransaction env action amount walletAddress publicKeyHex signRawHash))"
    using custodial_build_request [OF that] by simp
  moreover have "data_function q = getCounterFunction env action \<and> data_functionArguments q = [amount]"
    if "Call_build_simple q
         \<in> set (fst (submitCounterTransactionNative env action amount walletAddress signTransaction))"
    using native_build_request [OF that] by auto
  ultimately show ?thesis by blast
qed

theorem entry_point_mapping_exact_witness:
  "Call_build_simple \<lparr>sender = SenderString ''0xABC'', withFeePayer = True,
        data_function = ''0xC0::counter::add_counter'', data_typeArguments = Some [],
        data_functionArguments = [5], options_expireTimestamp = None\<rparr>
     \<in> set (fst (submitCounterTransaction demo_env increment 5 ''0xABC'' demo_key demo_signRawHash))
   \<and> Call_build_simple \<lparr>sender = SenderAddress [10, 188], withFeePayer = True,
        data_function = ''0xC0::counter::add_counter'', data_typeArguments = None,
        data_functionArguments = [5], options_expireTimestamp = Some 1700000300\<rparr>
     \<in> set (fst (submitCounterTransactionNative demo_env increment 5 ''0xABC'' demo_signTransaction))
   \<and> getCounterFunction demo_env increment = ''0xC0::counter::add_counter''
   \<and> getCounterFunction demo_env decrement = ''0xC0::counter::subtract_counter''"
  using entry_point_mapping_exact [where env = demo_env and action = increment and amount = 5
          and walletAddress = "''0xABC''" and publicKeyHex = demo_key
          and signRawHash = demo_signRawHash and signTransaction = demo_signTransaction
          and q = "\<lparr>sender = SenderString ''0xABC'', withFeePayer = True,
            data_function = ''0xC0::counter::add_counter'', data_typeArguments = Some [],
            data_functionArguments = [5], options_expireTimestamp = None\<rparr>"]
        entry_point_mapping_exact [where env = demo_env and action = increment and amount = 5
          and walletAddress = "''0xABC''" and publicKeyHex = demo_key
          and signRawHash = demo_signRawHash and signTransaction = demo_signTransaction
          and q = "\<lparr>sender = SenderAddress [10, 188], withFeePayer = True,
            data_function = ''0xC0::counter::add_counter'', data_typeArguments = None,
            data_functionArguments = [5], options_expireTimestamp = Some 1700000300\<rparr>"]
  by (simp add: demo_custodial_run demo_native_run trace_defs demo_env_sel
      getCounterFunction_def)

section \<open>Confirmation before the hash is returned\<close>

lemma custodial_confirmation_aux:
  "(case submitCounterTransaction env action amount walletAddress publicKeyHex signRawHash of
     (t, r) \<Rightarrow>
      (r = Inr h \<longrightarrow> Call_waitForTransaction h \<in> set t
          \<and> (\<exists>executed. waitForTransaction env h = Inr executed \<and> success executed))
      \<and> (Call_waitForTransaction h \<in> set t \<and> waitForTransaction env h = Inr executed \<and> \<not> success executed
          \<longrightarrow> r = Inl (Error ''Transaction failed'')))"
  by (simp add: run_simps split: sum.splits; auto)

lemma native_confirmation_aux:
  "(case submitCounterTransactionNative env action amount walletAddress signTransaction of
     (t, r) \<Rightarrow>
      (r = Inr h \<longrightarrow> Call_waitForTransaction h \<in> set t
          \<and> (\<exists>executed. waitForTransaction env h = Inr executed \<and> success executed))
      \<and> (Call_waitForTransaction h \<in> set t \<and> waitForTransaction env h = Inr executed \<and> \<not> success executed
          \<longrightarrow> r = Inl (Error ''Transaction failed on-chain'')))"
  by (simp add: run_simps split: sum.splits; auto)

text \<open>
  C1. In both submission flows the transaction hash is returned to the caller only if the
  chain client's confirmation wait was called for that hash and reported the executed
  transaction with \<open>success = true\<close>; if the confirmation wait reports
  \<open>success = false\<close>, the call throws instead of returning the hash.
\<close>

theorem hash_returned_only_after_confirmed_success:
  "(snd (submitCounterTransaction env action amount walletAddress publicKeyHex signRawHash) = Inr h \<longrightarrow>
      Call_waitForTransaction h
        \<in> set (fst (submitCounterTransaction env action amount walletAddress publicKeyHex signRawHash))
      \<and> (\<exists>executed. waitForTransaction env h = Inr executed \<and> success executed))
   \<and> (Call_waitForTransaction h
        \<in> set (fst (submitCounterTransaction env action amount walletAddress publicKeyHex signRawHash))
      \<and> waitForTransaction env h = Inr executed \<and> \<not> success executed \<longrightarrow>
      snd (submitCounterTransaction env action amount walletAddress publicKeyHex signRawHash)
        = Inl (Error ''Transaction failed''))
   \<and> (snd (submitCounterTransactionNative env action amount walletAddress signTransaction) = Inr h \<longrightarrow>
      Call_waitForTransaction h
        \<in> set (fst (submitCounterTransactionNative env action amount walletAddress signTransaction))
      \<and> (\<exists>executed. waitForTransaction env h = Inr executed \<and> success executed))
   \<and> (Call_waitForTransaction h
        \<in> set (fst (submitCounterTransactionNative env action amount walletAddress signTransaction))
      \<and> waitForTransaction env h = Inr executed \<and> \<not> success executed \<longrightarrow>
      snd (submitCounterTransactionNative env action amount walletAddress signTransaction)
        = Inl (Error ''Transaction failed on-chain''))"
  using custodial_confirmation_aux [where env = env and action = action and amount = amount
          and walletAddress = walletAddress and publicKeyHex = publicKeyHex
          and signRawHash = signRawHash and h = h and executed = executed]
        native_confirmation_aux [where env = env and action = action and amount = amount
          and walletAddress = walletAddress and signTransaction = signTransaction
          and h = h and executed = executed]
  by (simp add: case_prod_beta)

theorem hash_returned_only_after_confirmed_success_witness:
  "snd (submitCounterTransaction demo_env increment 5 ''0xABC'' demo_key demo_signRawHash)
     = Inr (Some ''0xdeadbeef'')
   \<and> snd (submitCounterTransactionNative demo_env increment 5 ''0xABC'' demo_signTransaction)
     = Inr (Some ''0xdeadbeef'')
   \<and> (\<exists>executed. waitForTransaction demo_env (Some ''0xdeadbeef'') = Inr executed
         \<and> success executed)
   \<and> Call_waitForTransaction (Some ''0xdeadbeef'')
       \<in> set (fst (submitCounterTransaction reverting_env increment 5 ''0xABC'' demo_key
                     demo_signRawHash))
   \<and> Call_waitForTransaction (Some ''0xdeadbeef'')
       \<in> set (fst (submitCounterTransactionNative reverting_env increment 5 ''0xABC''
                     demo_signTransaction))
   \<and> waitForTransaction reverting_env (Some ''0xdeadbeef'') = Inr \<lparr>success = False\<rparr>
   \<and> snd (submitCounterTransaction reverting_env increment 5 ''0xABC'' demo_key demo_signRawHash)
     = Inl (Error ''Transaction failed'')
   \<and> snd (submitCounterTransactionNative reverting_env increment 5 ''0xABC'' demo_signTransaction)
     = Inl (Error ''Transaction failed on-chain'')"
  using hash_returned_only_after_confirmed_success
          [where env = demo_env and action = increment and amount = 5
            and walletAddress = "''0xABC''" and publicKeyHex = demo_key
            and signRawHash = demo_signRawHash and signTransaction = demo_signTransaction
            and h = "Some ''0xdeadbeef''" and executed = "\<lparr>success = False\<rparr>"]
        hash_returned_only_after_confirmed_success
          [where env = reverting_env and action = increment and amount = 5
            and walletAddress = "''0xABC''" and publicKeyHex = demo_key
            and signRawHash = demo_signRawHash and signTransaction = demo_signTransaction
            and h = "Some ''0xdeadbeef''" and executed = "\<lparr>success = False\<rparr>"]
  by (simp add: demo_custodial_run demo_native_run reverting_custodial_run reverting_native_run
      demo_env_sel)

section \<open>The value reader\<close>

lemma exact_below_2_53: "n < 2 ^ 53 \<Longrightarrow> round_to_double n = n"
  by (simp add: round_to_double_def)

lemma below_2_64: "(n::nat) < 2 ^ 53 \<Longrightarrow> n < 2 ^ 64"
  by (rule less_trans [where y = "2 ^ 53"]) simp_all

lemma Number_js_simps:
  "Number_js env None = NaN"
  "Number_js env (Some (MoveNumber n)) = Finite (int n)"
  "decimal_value s = Some m \<Longrightarrow> m < 2 ^ 64 \<Longrightarrow>
     Number_js env (Some (MoveString s)) = Finite (int (round_to_double m))"
  by (simp_all add: Number_js_def)

lemma decimal_value_examples:
  "decimal_value ''5'' = Some 5"
  "decimal_value ''9007199254740993'' = Some 9007199254740993"
  by (simp_all add: decimal_value_def is_digit_def digit_value_def)

lemma round_to_double_example: "round_to_double 9007199254740993 = 9007199254740992"
proof -
  have "bitlen 9007199254740993 = 54"
    by (simp add: bitlen.simps)
  then show ?thesis
    by (simp add: round_to_double_def Let_def)
qed

text \<open>
  C5, as the code has it. For every address \<open>fetchCounterValue\<close> resolves and never
  rejects. When the view call throws, whatever the reason, it resolves to \<open>null\<close>. When
  the view call returns, it resolves to \<open>Number(result[0])\<close>: the counter value if the
  view call returns it first as a number or as the decimal digits of a value below
  \<open>2^53\<close>, the double nearest to it for larger values below \<open>2^64\<close>, and \<open>NaN\<close> if
  the result is empty.
\<close>

theorem fetchCounterValue_resolves:
  "(\<exists>v. snd (fetchCounterValue env addr) = Inr v)
   \<and> (view env \<lparr>view_function = CONTRACT_ADDRESS env @ ''::counter::get_counter'',
                 view_typeArguments = [], view_functionArguments = [addr]\<rparr> = Inl e
       \<longrightarrow> snd (fetchCounterValue env addr) = Inr None)
   \<and> (view env \<lparr>view_function = CONTRACT_ADDRESS env @ ''::counter::get_counter'',
                 view_typeArguments = [], view_functionArguments = [addr]\<rparr> = Inr result
       \<longrightarrow> snd (fetchCounterValue env addr)
             = Inr (Some (Number_js env (case result of [] \<Rightarrow> None | v # _ \<Rightarrow> Some v))))
   \<and> (view env \<lparr>view_function = CONTRACT_ADDRESS env @ ''::counter::get_counter'',
                 view_typeArguments = [], view_functionArguments = [addr]\<rparr> = Inr []
       \<longrightarrow> snd (fetchCounterValue env addr) = Inr (Some NaN))
   \<and> (view env \<lparr>view_function = CONTRACT_ADDRESS env @ ''::counter::get_counter'',
                 view_typeArguments = [], view_functionArguments = [addr]\<rparr>
         = Inr (MoveNumber n # rest)
       \<longrightarrow> snd (fetchCounterValue env addr) = Inr (Some (Finite (int n))))
   \<and> (view env \<lparr>view_function = CONTRACT_ADDRESS env @ ''::counter::get_counter'',
                 view_typeArguments = [], view_functionArguments = [addr]\<rparr>
         = Inr (MoveString s # rest)
       \<and> decimal_value s = Some m \<and> m < 2 ^ 53
       \<longrightarrow> snd (fetchCounterValue env addr) = Inr (Some (Finite (int m))))
   \<and> (view env \<lparr>view_function = CONTRACT_ADDRESS env @ ''::counter::get_counter'',
                 view_typeArguments = [], view_functionArguments = [addr]\<rparr>
         = Inr (MoveString s # rest)
       \<and> decimal_value s = Some m \<and> m < 2 ^ 64
       \<longrightarrow> snd (fetchCounterValue env addr) = Inr (Some (Finite (int (round_to_double m)))))"
  by (auto simp add: fetchCounterValue_run Let_def Number_js_simps exact_below_2_53
      below_2_64 split: sum.splits)

theorem fetchCounterValue_resolves_witness:
  "view offline_env \<lparr>view_function = CONTRACT_ADDRESS offline_env @ ''::counter::get_counter'',
        view_typeArguments = [], view_functionArguments = [''0xABC'']\<rparr>
     = Inl (Error ''Failed to fetch'')
   \<and> snd (fetchCounterValue offline_env ''0xABC'') = Inr None
   \<and> view demo_env \<lparr>view_function = CONTRACT_ADDRESS demo_env @ ''::counter::get_counter'',
        view_typeArguments = [], view_functionArguments = [''0xABC'']\<rparr>
     = Inr [MoveString ''5'']
   \<and> decimal_value ''5'' = Some 5
   \<and> snd (fetchCounterValue demo_env ''0xABC'') = Inr (Some (Finite 5))
   \<and> view (view_env []) \<lparr>view_function = CONTRACT_ADDRESS (view_env []) @ ''::counter::get_counter'',
        view_typeArguments = [], view_functionArguments = [''0xABC'']\<rparr>
     = Inr []
   \<and> snd (fetchCounterValue (view_env []) ''0xABC'') = Inr (Some NaN)
   \<and> snd (fetchCounterValue (view_env [MoveNumber 7]) ''0xABC'') = Inr (Some (Finite 7))
   \<and> snd (fetchCounterValue (view_env [MoveString ''9007199254740993'']) ''0xABC'')
     = Inr (Some (Finite (int (round_to_double 9007199254740993))))"
proof -
  have offline: "snd (fetchCounterValue offline_env ''0xABC'') = Inr None"
    using fetchCounterValue_resolves
            [where env = offline_env and addr = "''0xABC''" and e = "Error ''Failed to fetch''"]
    by (simp add: demo_env_sel)
  have five: "snd (fetchCounterValue demo_env ''0xABC'') = Inr (Some (Finite 5))"
    using fetchCounterValue_resolves
            [where env = demo_env and addr = "''0xABC''" and rest = "[]" and s = "''5''"
              and m = 5]
    by (simp add: demo_env_sel decimal_value_examples)
  have empty: "snd (fetchCounterValue (view_env []) ''0xABC'') = Inr (Some NaN)"
    using fetchCounterValue_resolves [where env = "view_env []" and addr = "''0xABC''"]
    by (simp add: demo_env_sel)
  have seven: "snd (fetchCounterValue (view_env [MoveNumber 7]) ''0xABC'')
      = Inr (Some (Finite 7))"
    using fetchCounterValue_resolves
            [where env = "view_env [MoveNumber 7]" and addr = "''0xABC''" and n = 7
              and rest = "[]"]
    by (simp add: demo_env_sel)
  have large: "snd (fetchCounterValue (view_env [MoveString ''9007199254740993'']) ''0xABC'')
     = Inr (Some (Finite (int (round_to_double 9007199254740993))))"
    using fetchCounterValue_resolves
            [where env = "view_env [MoveString ''9007199254740993'']" and addr = "''0xABC''"
              and rest = "[]" and s = "''9007199254740993''" and m = 9007199254740993]
    by (simp add: demo_env_sel decimal_value_examples)
  from offline five empty seven large show ?thesis
    by (simp add: demo_env_sel decimal_value_examples)
qed

text \<open>
  The claim as first stated has the function resolve to the counter value or to \<open>null\<close>.
  On an empty view result it resolves to \<open>NaN\<close>, which is neither; and a counter of
  \<open>2^53 + 1\<close>, returned as its decimal digits, comes back as \<open>2^53\<close>.
\<close>

theorem counter_value_lost_or_rounded:
  "snd (fetchCounterValue (view_env []) ''0xABC'') = Inr (Some NaN)
   \<and> decimal_value ''9007199254740993'' = Some 9007199254740993
   \<and> snd (fetchCounterValue (view_env [MoveString ''9007199254740993'']) ''0xABC'')
       = Inr (Some (Finite 9007199254740992))
   \<and> snd (fetchCounterValue (view_env [MoveString ''9007199254740993'']) ''0xABC'')
       \<noteq> Inr (Some (Finite 9007199254740993))"
  by (simp add: fetchCounterValue_run Let_def demo_env_sel Number_js_simps
      decimal_value_examples round_to_double_example)

section \<open>The empty wallet address\<close>

lemma custodial_first_call_aux:
  "(case submitCounterTransaction env action amount walletAddress publicKeyHex signRawHash of
     (t, r) \<Rightarrow>
       \<exists>rest. t = Call_build_simple
           \<lparr>sender = SenderString walletAddress, withFeePayer = True,
            data_function = getCounterFunction env action, data_typeArguments = Some [],
            data_functionArguments = [amount], options_expireTimestamp = None\<rparr> # rest)"
  by (simp add: run_simps split: sum.splits)

text \<open>
  C9. With the empty string as wallet address, \<open>submitCounterTransactionNative\<close> rejects
  with the message \<open>No wallet address provided\<close> having made no call at all besides the
  logging of that error: nothing is built, signed or sent. The custodial flow has no such
  check: given the empty string it goes straight to the builder, with the empty string as
  sender.
\<close>

theorem empty_wallet_address_rejected_by_native_flow_only:
  "submitCounterTransactionNative env action amount [] signTransaction =
     ([Console_error (''Error submitting '' @ action_name action
          @ '' transaction with native wallet:'')],
      Inl (Error ''No wallet address provided''))
   \<and> (\<exists>rest. fst (submitCounterTransaction env action amount [] publicKeyHex signRawHash) =
         Call_build_simple
           \<lparr>sender = SenderString [], withFeePayer = True,
            data_function = getCounterFunction env action, data_typeArguments = Some [],
            data_functionArguments = [amount], options_expireTimestamp = None\<rparr> # rest)"
  using custodial_first_call_aux [where env = env and action = action and amount = amount
          and walletAddress = "[]" and publicKeyHex = publicKeyHex and signRawHash = signRawHash]
  by (simp add: empty_wallet_native_run case_prod_beta)

theorem empty_wallet_address_rejected_by_native_flow_only_witness:
  "submitCounterTransactionNative demo_env increment 5 '''' demo_signTransaction =
     ([Console_error ''Error submitting increment transaction with native wallet:''],
      Inl (Error ''No wallet address provided''))
   \<and> hd (fst (submitCounterTransaction demo_env increment 5 '''' demo_key demo_signRawHash)) =
         Call_build_simple
           \<lparr>sender = SenderString '''', withFeePayer = True,
            data_function = ''0xC0::counter::add_counter'', data_typeArguments = Some [],
            data_functionArguments = [5], options_expireTimestamp = None\<rparr>"
  using empty_wallet_address_rejected_by_native_flow_only
          [where env = demo_env and action = increment and amount = 5
            and signTransaction = demo_signTransaction and publicKeyHex = demo_key
            and signRawHash = demo_signRawHash]
  by (auto simp add: action_name_def getCounterFunction_def demo_env_sel)

section \<open>A refused sponsorship\<close>

lemma custodial_refusal_aux:
  "(case submitCounterTransaction env action amount walletAddress publicKeyHex signRawHash of
     (t, r) \<Rightarrow>
       Call_fetch q \<in> set t \<and> fetch env q = Inr response \<and> \<not> ok response
       \<longrightarrow> (json response = Inl e \<longrightarrow> r = Inl e)
           \<and> (json response = Inr b \<longrightarrow> r = Inl (refusal_error env b)))"
  by (simp add: run_simps split: sum.splits; auto)

lemma native_refusal_aux:
  "(case submitCounterTransactionNative env action amount walletAddress signTransaction of
     (t, r) \<Rightarrow>
       Call_fetch q \<in> set t \<and> fetch env q = Inr response \<and> \<not> ok response
       \<longrightarrow> (json response = Inl e \<longrightarrow> r = Inl e)
           \<and> (json response = Inr b \<longrightarrow> r = Inl (refusal_error env b)))"
  by (simp add: run_simps split: sum.splits; auto)

lemma refusal_error_cases:
  "details b = Some (JString d) \<Longrightarrow> d \<noteq> [] \<Longrightarrow> refusal_error env b = Error d"
  "details b = None \<Longrightarrow> refusal_error env b = Error ''Failed to sponsor transaction''"
  "details b = Some v \<Longrightarrow> \<not> ToBoolean env v \<Longrightarrow>
     refusal_error env b = Error ''Failed to sponsor transaction''"
  "details b = Some v \<Longrightarrow> ToBoolean env v \<Longrightarrow> ToString env v = Inr m \<Longrightarrow>
     refusal_error env b = Error m"
  "details b = Some v \<Longrightarrow> ToBoolean env v \<Longrightarrow> ToString env v = Inl e' \<Longrightarrow>
     refusal_error env b = e'"
  by (simp_all add: refusal_error_def details_or_fallback_def)

lemma refusal_error_of_string:
  "details b = Some (JString d) \<Longrightarrow>
     \<exists>m. refusal_error env b = Error m \<and> m \<noteq> []"
  by (simp add: refusal_error_def details_or_fallback_def)

lemma demo_fetch_in_calls:
  "Call_fetch (sponsor_request ''0xaa'' ''0xbb'') \<in> set demo_custodial_calls"
  "Call_fetch (sponsor_request ''0xaa'' ''0xbb'') \<in> set demo_native_calls"
  by (simp_all add: trace_defs)

lemma no_wait_in_demo_native_calls:
  "Call_waitForTransaction h \<notin> set demo_native_calls"
  by (simp add: trace_defs)

text \<open>
  C3, as the code has it. For every sponsorship response with a non-2xx status the
  submission call fails. If the body cannot be read (it is not JSON, or it is \<open>null\<close>),
  the error is the one that the read raised. Otherwise the message equals the \<open>details\<close>
  field of the body if that is a non-empty string, equals the fallback
  \<open>Failed to sponsor transaction\<close> if \<open>details\<close> is absent or falsy (\<open>null\<close>,
  \<open>false\<close>, zero, the empty string), and is the string conversion of \<open>details\<close> in every
  other case, the conversion's own error surfacing if it throws. The message is never empty
  when \<open>details\<close> is absent or a string.
\<close>

theorem sponsorship_refusal_message:
  "(Call_fetch q
      \<in> set (fst (submitCounterTransaction env action amount walletAddress publicKeyHex signRawHash))
    \<and> fetch env q = Inr response \<and> \<not> ok response
    \<longrightarrow> (json response = Inl e \<longrightarrow>
           snd (submitCounterTransaction env action amount walletAddress publicKeyHex signRawHash)
             = Inl e)
        \<and> (json response = Inr b \<longrightarrow>
           snd (submitCounterTransaction env action amount walletAddress publicKeyHex signRawHash)
             = Inl (refusal_error env b)))
   \<and> (Call_fetch q
      \<in> set (fst (submitCounterTransactionNative env action amount walletAddress signTransaction))
    \<and> fetch env q = Inr response \<and> \<not> ok response
    \<longrightarrow> (json response = Inl e \<longrightarrow>
           snd (submitCounterTransactionNative env action amount walletAddress signTransaction)
             = Inl e)
        \<and> (json response = Inr b \<longrightarrow>
           snd (submitCounterTransactionNative env action amount walletAddress signTransaction)
             = Inl (refusal_error env b)))
   \<and> (details b = Some (JString d) \<and> d \<noteq> [] \<longrightarrow> refusal_error env b = Error d)
   \<and> (details b = None \<or> details b = Some JNull \<or> details b = Some (JBool False)
        \<or> details b = Some (JString []) \<or> (details b = Some v \<and> \<not> ToBoolean env v)
      \<longrightarrow> refusal_error env b = Error ''Failed to sponsor transaction'')
   \<and> (details b = Some v \<and> ToBoolean env v \<and> ToString env v = Inr m
      \<longrightarrow> refusal_error env b = Error m)
   \<and> (details b = Some v \<and> ToBoolean env v \<and> ToString env v = Inl e'
      \<longrightarrow> refusal_error env b = e')
   \<and> (details b = None \<or> (\<exists>s. details b = Some (JString s))
      \<longrightarrow> (\<exists>m. refusal_error env b = Error m \<and> m \<noteq> []))"
proof -
  have custodial:
    "Call_fetch q
      \<in> set (fst (submitCounterTransaction env action amount walletAddress publicKeyHex signRawHash))
    \<and> fetch env q = Inr response \<and> \<not> ok response
    \<longrightarrow> (json response = Inl e \<longrightarrow>
           snd (submitCounterTransaction env action amount walletAddress publicKeyHex signRawHash)
             = Inl e)
        \<and> (json response = Inr b \<longrightarrow>
           snd (submitCounterTransaction env action amount walletAddress publicKeyHex signRawHash)
             = Inl (refusal_error env b))"
    using custodial_refusal_aux [where env = env and action = action and amount = amount
            and walletAddress = walletAddress and publicKeyHex = publicKeyHex
            and signRawHash = signRawHash and q = q and response = response and b = b
            and e = e]
    by (simp add: case_prod_beta)
  have native:
    "Call_fetch q
      \<in> set (fst (submitCounterTransactionNative env action amount walletAddress signTransaction))
    \<and> fetch env q = Inr response \<and> \<not> ok response
    \<longrightarrow> (json response = Inl e \<longrightarrow>
           snd (submitCounterTransactionNative env action amount walletAddress signTransaction)
             = Inl e)
        \<and> (json response = Inr b \<longrightarrow>
           snd (submitCounterTransactionNative env action amount walletAddress signTransaction)
             = Inl (refusal_error env b))"
    using native_refusal_aux [where env = env and action = action and amount = amount
            and walletAddress = walletAddress and signTransaction = signTransaction
            and q = q and response = response and b = b and e = e]
    by (simp add: case_prod_beta)
  have string: "details b = Some (JString d) \<and> d \<noteq> [] \<longrightarrow> refusal_error env b = Error d"
    by (simp add: refusal_error_cases)
  have falsy: "details b = None \<or> details b = Some JNull \<or> details b = Some (JBool False)
        \<or> details b = Some (JString []) \<or> (details b = Some v \<and> \<not> ToBoolean env v)
      \<longrightarrow> refusal_error env b = Error ''Failed to sponsor transaction''"
    by (auto simp add: refusal_error_cases)
  have truthy: "details b = Some v \<and> ToBoolean env v \<and> ToString env v = Inr m
      \<longrightarrow> refusal_error env b = Error m"
    by (simp add: refusal_error_cases)
  have throwing: "details b = Some v \<and> ToBoolean env v \<and> ToString env v = Inl e'
      \<longrightarrow> refusal_error env b = e'"
    by (simp add: refusal_error_cases)
  have nonempty: "details b = None \<or> (\<exists>s. details b = Some (JString s))
      \<longrightarrow> (\<exists>m. refusal_error env b = Error m \<and> m \<noteq> [])"
    by (auto simp add: refusal_error_cases refusal_error_of_string)
  from custodial native string falsy truthy throwing nonempty show ?thesis
    by (intro conjI)
qed

lemma demo_refusal_errors:
  "refusal_error (refusing_env x) \<lparr>details = Some (JString ''insufficient balance''),
      transactionHash = None\<rparr> = Error ''insufficient balance''"
  "refusal_error (refusing_env x) \<lparr>details = None, transactionHash = None\<rparr>
     = Error ''Failed to sponsor transaction''"
  "refusal_error (refusing_env x) \<lparr>details = Some (JString ''''), transactionHash = None\<rparr>
     = Error ''Failed to sponsor transaction''"
  "refusal_error (refusing_env x) \<lparr>details = Some (JArray []), transactionHash = None\<rparr>
     = Error ''''"
  by (simp_all add: refusal_error_def details_or_fallback_def)

theorem sponsorship_refusal_message_witness:
  "Call_fetch (sponsor_request ''0xaa'' ''0xbb'')
     \<in> set (fst (submitCounterTransaction (refusing_env (Some (JString ''insufficient balance'')))
                   increment 5 ''0xABC'' demo_key demo_signRawHash))
   \<and> Call_fetch (sponsor_request ''0xaa'' ''0xbb'')
     \<in> set (fst (submitCounterTransactionNative (refusing_env None)
                   increment 5 ''0xABC'' demo_signTransaction))
   \<and> fetch (refusing_env (Some (JString ''insufficient balance'')))
         (sponsor_request ''0xaa'' ''0xbb'')
     = Inr \<lparr>ok = False,
            json = Inr \<lparr>details = Some (JString ''insufficient balance''),
                         transactionHash = None\<rparr>\<rparr>
   \<and> fetch (refusing_env None) (sponsor_request ''0xaa'' ''0xbb'')
     = Inr \<lparr>ok = False, json = Inr \<lparr>details = None, transactionHash = None\<rparr>\<rparr>
   \<and> snd (submitCounterTransaction (refusing_env (Some (JString ''insufficient balance'')))
            increment 5 ''0xABC'' demo_key demo_signRawHash)
     = Inl (Error ''insufficient balance'')
   \<and> snd (submitCounterTransactionNative (refusing_env None)
            increment 5 ''0xABC'' demo_signTransaction)
     = Inl (Error ''Failed to sponsor transaction'')
   \<and> Call_fetch (sponsor_request ''0xaa'' ''0xbb'')
     \<in> set (fst (submitCounterTransaction garbled_env increment 5 ''0xABC'' demo_key
                   demo_signRawHash))
   \<and> fetch garbled_env (sponsor_request ''0xaa'' ''0xbb'')
     = Inr \<lparr>ok = False, json = Inl (Error ''Unexpected token'')\<rparr>
   \<and> snd (submitCounterTransaction garbled_env increment 5 ''0xABC'' demo_key demo_signRawHash)
     = Inl (Error ''Unexpected token'')"
  using sponsorship_refusal_message
          [where env = "refusing_env (Some (JString ''insufficient balance''))"
            and action = increment
            and amount = 5 and walletAddress = "''0xABC''" and publicKeyHex = demo_key
            and signRawHash = demo_signRawHash and signTransaction = demo_signTransaction
            and q = "sponsor_request ''0xaa'' ''0xbb''"
            and response = "\<lparr>ok = False,
                 json = Inr \<lparr>details = Some (JString ''insufficient balance''),
                              transactionHash = None\<rparr>\<rparr>"
            and b = "\<lparr>details = Some (JString ''insufficient balance''),
                       transactionHash = None\<rparr>"
            and d = "''insufficient balance''" and e = "Error ''Unexpected token''"]
        sponsorship_refusal_message
          [where env = "refusing_env None" and action = increment
            and amount = 5 and walletAddress = "''0xABC''" and publicKeyHex = demo_key
            and signRawHash = demo_signRawHash and signTransaction = demo_signTransaction
            and q = "sponsor_request ''0xaa'' ''0xbb''"
            and response = "\<lparr>ok = False,
                 json = Inr \<lparr>details = None, transactionHash = None\<rparr>\<rparr>"
            and b = "\<lparr>details = None, transactionHash = None\<rparr>"
            and d = "''insufficient balance''" and e = "Error ''Unexpected token''"]
        sponsorship_refusal_message
          [where env = garbled_env and action = increment
            and amount = 5 and walletAddress = "''0xABC''" and publicKeyHex = demo_key
            and signRawHash = demo_signRawHash and signTransaction = demo_signTransaction
            and q = "sponsor_request ''0xaa'' ''0xbb''"
            and response = "\<lparr>ok = False, json = Inl (Error ''Unexpected token'')\<rparr>"
            and b = "\<lparr>details = None, transactionHash = None\<rparr>"
            and d = "''insufficient balance''" and e = "Error ''Unexpected token''"]
  by (simp add: refusing_custodial_run refusing_native_run garbled_custodial_run
      demo_fetch_in_calls demo_env_sel demo_refusal_errors)

text \<open>
  The claim as first stated has the message equal \<open>details\<close> whenever the field is present,
  the fallback whenever it is absent, and never empty. A body \<open>{details: ""}\<close> has the
  field, and the message is the fallback. A body \<open>{details: []}\<close> has a truthy field whose
  string conversion is empty, and the message is empty. A body that is not JSON has no
  field, and the caller sees the parser's error, not the fallback.
\<close>

theorem refusal_message_is_not_always_details_or_fallback:
  "fetch (refusing_env (Some (JString ''''))) (sponsor_request ''0xaa'' ''0xbb'')
     = Inr \<lparr>ok = False,
            json = Inr \<lparr>details = Some (JString ''''), transactionHash = None\<rparr>\<rparr>
   \<and> snd (submitCounterTransaction (refusing_env (Some (JString '''')))
            increment 5 ''0xABC'' demo_key demo_signRawHash)
     = Inl (Error ''Failed to sponsor transaction'')
   \<and> fetch (refusing_env (Some (JArray []))) (sponsor_request ''0xaa'' ''0xbb'')
     = Inr \<lparr>ok = False,
            json = Inr \<lparr>details = Some (JArray []), transactionHash = None\<rparr>\<rparr>
   \<and> snd (submitCounterTransaction (refusing_env (Some (JArray [])))
            increment 5 ''0xABC'' demo_key demo_signRawHash)
     = Inl (Error '''')
   \<and> fetch garbled_env (sponsor_request ''0xaa'' ''0xbb'')
     = Inr \<lparr>ok = False, json = Inl (Error ''Unexpected token'')\<rparr>
   \<and> snd (submitCounterTransaction garbled_env increment 5 ''0xABC'' demo_key demo_signRawHash)
     = Inl (Error ''Unexpected token'')
   \<and> Call_fetch (sponsor_request ''0xaa'' ''0xbb'')
     \<in> set (fst (submitCounterTransaction (refusing_env (Some (JString '''')))
                   increment 5 ''0xABC'' demo_key demo_signRawHash))
   \<and> Call_fetch (sponsor_request ''0xaa'' ''0xbb'')
     \<in> set (fst (submitCounterTransaction (refusing_env (Some (JArray [])))
                   increment 5 ''0xABC'' demo_key demo_signRawHash))
   \<and> Call_fetch (sponsor_request ''0xaa'' ''0xbb'')
     \<in> set (fst (submitCounterTransaction garbled_env increment 5 ''0xABC'' demo_key
                   demo_signRawHash))"
  by (simp add: refusing_custodial_run garbled_custodial_run demo_fetch_in_calls demo_env_sel
      demo_refusal_errors)

section \<open>A success response without a hash\<close>

lemma native_missing_hash_aux:
  "(case submitCounterTransactionNative env action amount walletAddress signTransaction of
     (t, r) \<Rightarrow>
       Call_fetch q \<in> set t \<and> fetch env q = Inr response \<and> ok response
         \<and> json response = Inr b
         \<and> (transactionHash b = None \<or> transactionHash b = Some [])
       \<longrightarrow> r = Inl (Error ''Unable to get transaction hash from backend'')
           \<and> (\<forall>h. Call_waitForTransaction h \<notin> set t))"
  by (simp add: run_simps split: sum.splits;
      auto simp add: falsy_opt_def falsy_string_def split: option.splits)

text \<open>
  C10. In the native-wallet flow, if the backend's success response carries no
  \<open>transactionHash\<close> or a falsy one, \<open>submitCounterTransactionNative\<close> rejects with the
  message \<open>Unable to get transaction hash from backend\<close> and the confirmation wait is never
  called.
\<close>

theorem missing_hash_rejected_before_confirmation_wait:
  "Call_fetch q
      \<in> set (fst (submitCounterTransactionNative env action amount walletAddress signTransaction))
    \<and> fetch env q = Inr response \<and> ok response \<and> json response = Inr b
    \<and> (transactionHash b = None \<or> transactionHash b = Some [])
   \<longrightarrow> snd (submitCounterTransactionNative env action amount walletAddress signTransaction)
          = Inl (Error ''Unable to get transaction hash from backend'')
       \<and> (\<forall>h. Call_waitForTransaction h
             \<notin> set (fst (submitCounterTransactionNative env action amount walletAddress
                           signTransaction)))"
  using native_missing_hash_aux [where env = env and action = action and amount = amount
          and walletAddress = walletAddress and signTransaction = signTransaction
          and q = q and response = response and b = b]
  by (simp add: case_prod_beta)

theorem missing_hash_rejected_before_confirmation_wait_witness:
  "Call_fetch (sponsor_request ''0xaa'' ''0xbb'')
      \<in> set (fst (submitCounterTransactionNative (hash_env None) increment 5 ''0xABC''
                    demo_signTransaction))
   \<and> fetch (hash_env None) (sponsor_request ''0xaa'' ''0xbb'')
       = Inr \<lparr>ok = True, json = Inr \<lparr>details = None, transactionHash = None\<rparr>\<rparr>
   \<and> snd (submitCounterTransactionNative (hash_env None) increment 5 ''0xABC''
            demo_signTransaction)
       = Inl (Error ''Unable to get transaction hash from backend'')
   \<and> (\<forall>h. Call_waitForTransaction h
         \<notin> set (fst (submitCounterTransactionNative (hash_env None) increment 5 ''0xABC''
                       demo_signTransaction)))
   \<and> Call_fetch (sponsor_request ''0xaa'' ''0xbb'')
      \<in> set (fst (submitCounterTransactionNative (hash_env (Some '''')) increment 5 ''0xABC''
                    demo_signTransaction))
   \<and> snd (submitCounterTransactionNative (hash_env (Some '''')) increment 5 ''0xABC''
            demo_signTransaction)
       = Inl (Error ''Unable to get transaction hash from backend'')"
  using missing_hash_rejected_before_confirmation_wait
          [where env = "hash_env None" and action = increment and amount = 5
            and walletAddress = "''0xABC''" and signTransaction = demo_signTransaction
            and q = "sponsor_request ''0xaa'' ''0xbb''"
            and response = "\<lparr>ok = True, json = Inr \<lparr>details = None, transactionHash = None\<rparr>\<rparr>"
            and b = "\<lparr>details = None, transactionHash = None\<rparr>"]
        missing_hash_rejected_before_confirmation_wait
          [where env = "hash_env (Some '''')" and action = increment and amount = 5
            and walletAddress = "''0xABC''" and signTransaction = demo_signTransaction
            and q = "sponsor_request ''0xaa'' ''0xbb''"
            and response = "\<lparr>ok = True,
                 json = Inr \<lparr>details = None, transactionHash = Some ''''\<rparr>\<rparr>"
            and b = "\<lparr>details = None, transactionHash = Some ''''\<rparr>"]
  by (simp add: hash_native_run falsy_opt_def falsy_string_def demo_fetch_in_calls
      demo_env_sel no_wait_in_demo_native_calls)

section \<open>Normalising the public key\<close>










lemma double_prefix_facts:
  "cleanPublicKey ''0x0xab'' = ''0xab''"
  "cleanPublicKey ''0xab'' = ''ab''"
  by (simp_all add: cleanPublicKey_def Let_def strip0x_def startsWith_def slice_def)




text \<open>
  A string that carries the prefix twice is not a hexadecimal key. It is normalised to a
  string that still carries the prefix once, and a second application strips that one too.
\<close>

lemma double_prefix_is_not_a_fixed_point:
  "cleanPublicKey ''0x0xab'' = ''0xab''
   \<and> cleanPublicKey (cleanPublicKey ''0x0xab'') = ''ab''
   \<and> cleanPublicKey (cleanPublicKey ''0x0xab'') \<noteq> cleanPublicKey ''0x0xab''"
  by (simp add: double_prefix_facts)

section \<open>Fee payer and expiration\<close>

lemma demo_build_calls:
  "Call_build_simple \<lparr>sender = SenderString ''0xABC'', withFeePayer = True,
        data_function = ''0xC0::counter::add_counter'', data_typeArguments = Some [],
        data_functionArguments = [5], options_expireTimestamp = None\<rparr>
     \<in> set (fst (submitCounterTransaction demo_env increment 5 ''0xABC'' demo_key demo_signRawHash))"
  "Call_build_simple \<lparr>sender = SenderAddress [10, 188], withFeePayer = True,
        data_function = ''0xC0::counter::add_counter'', data_typeArguments = None,
        data_functionArguments = [5], options_expireTimestamp = Some 1700000300\<rparr>
     \<in> set (fst (submitCounterTransactionNative demo_env increment 5 ''0xABC'' demo_signTransaction))"
  by (simp_all add: demo_custodial_run demo_native_run trace_defs)

text \<open>
  C6, as the code has it. Every transaction that either submission flow builds is requested
  with the fee-payer flag set. The native-wallet flow also asks for the expiration
  \<open>floor(now / 1000) + 5 * 60\<close> seconds, which lies strictly after the build time
  \<open>now\<close> (in milliseconds). The custodial flow passes no expiration: it leaves the
  expiration to the default of the SDK.
\<close>

theorem fee_payer_and_expiration:
  "(Call_build_simple q
      \<in> set (fst (submitCounterTransaction env action amount walletAddress publicKeyHex signRawHash))
    \<longrightarrow> withFeePayer q \<and> options_expireTimestamp q = None)
   \<and> (Call_build_simple q
      \<in> set (fst (submitCounterTransactionNative env action amount walletAddress signTransaction))
    \<longrightarrow> withFeePayer q
        \<and> options_expireTimestamp q = Some (Date_now env div 1000 + 5 * 60)
        \<and> (\<forall>expiry. options_expireTimestamp q = Some expiry \<longrightarrow> Date_now env < 1000 * expiry))"
proof (intro conjI impI)
  assume "Call_build_simple q
      \<in> set (fst (submitCounterTransaction env action amount walletAddress publicKeyHex signRawHash))"
  from custodial_build_request [OF this]
  show "withFeePayer q" and "options_expireTimestamp q = None"
    by simp_all
next
  assume "Call_build_simple q
      \<in> set (fst (submitCounterTransactionNative env action amount walletAddress signTransaction))"
  from native_build_request [OF this]
  have q: "withFeePayer q" "options_expireTimestamp q = Some (Date_now env div 1000 + 5 * 60)"
    by auto
  show "withFeePayer q"
    by (rule q)
  show "options_expireTimestamp q = Some (Date_now env div 1000 + 5 * 60)"
    by (rule q)
  have "Date_now env < 1000 * (Date_now env div 1000 + 5 * 60)"
    by simp
  with q show "\<forall>expiry. options_expireTimestamp q = Some expiry \<longrightarrow> Date_now env < 1000 * expiry"
    by simp
qed

theorem fee_payer_and_expiration_witness:
  "Call_build_simple \<lparr>sender = SenderString ''0xABC'', withFeePayer = True,
        data_function = ''0xC0::counter::add_counter'', data_typeArguments = Some [],
        data_functionArguments = [5], options_expireTimestamp = None\<rparr>
     \<in> set (fst (submitCounterTransaction demo_env increment 5 ''0xABC'' demo_key demo_signRawHash))
   \<and> Call_build_simple \<lparr>sender = SenderAddress [10, 188], withFeePayer = True,
        data_function = ''0xC0::counter::add_counter'', data_typeArguments = None,
        data_functionArguments = [5], options_expireTimestamp = Some 1700000300\<rparr>
     \<in> set (fst (submitCounterTransactionNative demo_env increment 5 ''0xABC'' demo_signTransaction))
   \<and> Date_now demo_env = 1700000000123
   \<and> Date_now demo_env div 1000 + 5 * 60 = 1700000300
   \<and> Date_now demo_env < 1000 * 1700000300"
  using fee_payer_and_expiration
          [where env = demo_env and action = increment and amount = 5
            and walletAddress = "''0xABC''" and publicKeyHex = demo_key
            and signRawHash = demo_signRawHash and signTransaction = demo_signTransaction
            and q = "\<lparr>sender = SenderString ''0xABC'', withFeePayer = True,
              data_function = ''0xC0::counter::add_counter'', data_typeArguments = Some [],
              data_functionArguments = [5], options_expireTimestamp = None\<rparr>"]
        fee_payer_and_expiration
          [where env = demo_env and action = increment and amount = 5
            and walletAddress = "''0xABC''" and publicKeyHex = demo_key
            and signRawHash = demo_signRawHash and signTransaction = demo_signTransaction
            and q = "\<lparr>sender = SenderAddress [10, 188], withFeePayer = True,
              data_function = ''0xC0::counter::add_counter'', data_typeArguments = None,
              data_functionArguments = [5], options_expireTimestamp = Some 1700000300\<rparr>"]
  by (simp add: demo_build_calls demo_env_sel)

text \<open>
  The claim as first stated gives both flows the bound of five minutes. In the scenario of
  the specification the request of the custodial flow has no expiration option at all.
\<close>

theorem custodial_request_carries_no_expiration:
  "Call_build_simple \<lparr>sender = SenderString ''0xABC'', withFeePayer = True,
        data_function = ''0xC0::counter::add_counter'', data_typeArguments = Some [],
        data_functionArguments = [5], options_expireTimestamp = None\<rparr>
     \<in> set (fst (submitCounterTransaction demo_env increment 5 ''0xABC'' demo_key demo_signRawHash))
   \<and> options_expireTimestamp
        \<lparr>sender = SenderString ''0xABC'', withFeePayer = True,
         data_function = ''0xC0::counter::add_counter'', data_typeArguments = Some [],
         data_functionArguments = [5], options_expireTimestamp = None\<rparr>
       \<noteq> Some (Date_now demo_env div 1000 + 5 * 60)"
  by (simp add: demo_build_calls)

section \<open>One request to the backend\<close>

lemma custodial_posts_aux:
  "(case submitCounterTransaction env action amount walletAddress publicKeyHex signRawHash of
     (t, r) \<Rightarrow>
       length (posts t) \<le> 1
       \<and> (r = Inr h \<longrightarrow> length (posts t) = 1)
       \<and> (Call_fetch q \<in> set t \<longrightarrow>
            posts t = [Call_fetch q] \<and> url q = ''/api/sponsor-transaction''
            \<and> http_method q = ''POST'')
       \<and> (Call_fetch q \<in> set t \<and> fetch env q = Inl e \<longrightarrow> r = Inl e)
       \<and> (Call_fetch q \<in> set t \<and> fetch env q = Inr response \<and> \<not> ok response
            \<longrightarrow> (\<exists>e'. r = Inl e')))"
  by (simp add: run_simps posts_def sponsor_request_def split: sum.splits; auto)

lemma native_posts_aux:
  "(case submitCounterTransactionNative env action amount walletAddress signTransaction of
     (t, r) \<Rightarrow>
       length (posts t) \<le> 1
       \<and> (r = Inr h \<longrightarrow> length (posts t) = 1)
       \<and> (Call_fetch q \<in> set t \<longrightarrow>
            posts t = [Call_fetch q] \<and> url q = ''/api/sponsor-transaction''
            \<and> http_method q = ''POST'')
       \<and> (Call_fetch q \<in> set t \<and> fetch env q = Inl e \<longrightarrow> r = Inl e)
       \<and> (Call_fetch q \<in> set t \<and> fetch env q = Inr response \<and> \<not> ok response
            \<longrightarrow> (\<exists>e'. r = Inl e')))"
  by (simp add: run_simps posts_def sponsor_request_def split: sum.splits; auto)


lemma demo_posts:
  "posts (demo_custodial_calls @ t) = Call_fetch (sponsor_request ''0xaa'' ''0xbb'') # posts t"
  "posts (demo_native_calls @ t) = Call_fetch (sponsor_request ''0xaa'' ''0xbb'') # posts t"
  by (simp_all add: posts_def trace_defs)

lemma posts_simps:
  "posts [] = []"
  "posts (Call_fetch q # t) = Call_fetch q # posts t"
  "posts (Call_response_json # t) = posts t"
  "posts (Call_waitForTransaction h # t) = posts t"
  "posts (Console_log m # t) = posts t"
  "posts (Console_error m # t) = posts t"
  by (simp_all add: posts_def)

lemma custodial_posted_aux:
  "(case submitCounterTransaction env action amount walletAddress publicKeyHex signRawHash of
     (t, r) \<Rightarrow>
       posts t =
         (case build_simple env
                 \<lparr>sender = SenderString walletAddress, withFeePayer = True,
                  data_function = getCounterFunction env action, data_typeArguments = Some [],
                  data_functionArguments = [amount], options_expireTimestamp = None\<rparr> of
            Inl e \<Rightarrow> []
          | Inr rawTxn \<Rightarrow>
         (case signRawHash
                 \<lparr>address = walletAddress, chainType = ''aptos'',
                  hash = ''0x'' @ toHex env (generateSigningMessageForTransaction env rawTxn)\<rparr> of
            Inl e \<Rightarrow> []
          | Inr signed \<Rightarrow>
         (case new_Ed25519PublicKey env (cleanPublicKey publicKeyHex) of
            Inl e \<Rightarrow> []
          | Inr pk \<Rightarrow>
         (case new_Ed25519Signature env (strip0x (signature signed)) of
            Inl e \<Rightarrow> []
          | Inr sg \<Rightarrow>
              [Call_fetch
                 (sponsor_request
                    (transaction_bcsToHex env
                       \<lparr>rawTransaction = rawTransaction rawTxn, feePayerAddress = None\<rparr>)
                    (authenticator_bcsToHex env (AccountAuthenticatorEd25519 pk sg)))])))))"
  by (simp add: run_simps posts_def split: sum.splits)

lemma native_posted_aux:
  "(case submitCounterTransactionNative env action amount walletAddress signTransaction of
     (t, r) \<Rightarrow>
       posts t =
         (if walletAddress = [] then []
          else
         (case AccountAddress_from env walletAddress of
            Inl e \<Rightarrow> []
          | Inr senderAddress \<Rightarrow>
         (case build_simple env
                 \<lparr>sender = SenderAddress senderAddress, withFeePayer = True,
                  data_function = getCounterFunction env action, data_typeArguments = None,
                  data_functionArguments = [amount],
                  options_expireTimestamp = Some (Date_now env div 1000 + 5 * 60)\<rparr> of
            Inl e \<Rightarrow> []
          | Inr simpleTx \<Rightarrow>
         (case signTransaction simpleTx of
            Inl e \<Rightarrow> []
          | Inr senderSig \<Rightarrow>
              [Call_fetch
                 (sponsor_request (transaction_bcsToHex env simpleTx)
                    (authenticator_bcsToHex env (authenticator senderSig)))])))))"
  by (simp add: run_simps posts_def falsy_string_def split: sum.splits)

text \<open>
  C7, as the code has it. A submission call posts to the sponsorship endpoint at most once
  and never retries. It posts exactly once if every stage before the sponsorship succeeds:
  building and signing, with the construction of the key and signature objects in the
  custodial flow and the address check and conversion in the native-wallet flow. It posts
  nothing if one of these stages fails. A call that returns a hash has posted exactly once;
  a call whose request fails, or is answered with a non-2xx status, fails itself, having
  posted exactly once. Every request goes to \<open>/api/sponsor-transaction\<close> with the method
  \<open>POST\<close>.
\<close>

theorem at_most_one_post_and_no_retry:
  "posts (fst (submitCounterTransaction env action amount walletAddress publicKeyHex
                 signRawHash)) =
     (case build_simple env
             \<lparr>sender = SenderString walletAddress, withFeePayer = True,
              data_function = getCounterFunction env action, data_typeArguments = Some [],
              data_functionArguments = [amount], options_expireTimestamp = None\<rparr> of
        Inl e \<Rightarrow> []
      | Inr rawTxn \<Rightarrow>
     (case signRawHash
             \<lparr>address = walletAddress, chainType = ''aptos'',
              hash = ''0x'' @ toHex env (generateSigningMessageForTransaction env rawTxn)\<rparr> of
        Inl e \<Rightarrow> []
      | Inr signed \<Rightarrow>
     (case new_Ed25519PublicKey env (cleanPublicKey publicKeyHex) of
        Inl e \<Rightarrow> []
      | Inr pk \<Rightarrow>
     (case new_Ed25519Signature env (strip0x (signature signed)) of
        Inl e \<Rightarrow> []
      | Inr sg \<Rightarrow>
          [Call_fetch
             (sponsor_request
                (transaction_bcsToHex env
                   \<lparr>rawTransaction = rawTransaction rawTxn, feePayerAddress = None\<rparr>)
                (authenticator_bcsToHex env (AccountAuthenticatorEd25519 pk sg)))]))))
   \<and> posts (fst (submitCounterTransactionNative env action amount walletAddress
                   signTransaction)) =
     (if walletAddress = [] then []
      else
     (case AccountAddress_from env walletAddress of
        Inl e \<Rightarrow> []
      | Inr senderAddress \<Rightarrow>
     (case build_simple env
             \<lparr>sender = SenderAddress senderAddress, withFeePayer = True,
              data_function = getCounterFunction env action, data_typeArguments = None,
              data_functionArguments = [amount],
              options_expireTimestamp = Some (Date_now env div 1000 + 5 * 60)\<rparr> of
        Inl e \<Rightarrow> []
      | Inr simpleTx \<Rightarrow>
     (case signTransaction simpleTx of
        Inl e \<Rightarrow> []
      | Inr senderSig \<Rightarrow>
          [Call_fetch
             (sponsor_request (transaction_bcsToHex env simpleTx)
                (authenticator_bcsToHex env (authenticator senderSig)))]))))
   \<and> length (posts (fst (submitCounterTransaction env action amount walletAddress publicKeyHex
                         signRawHash))) \<le> 1
   \<and> length (posts (fst (submitCounterTransactionNative env action amount walletAddress
                           signTransaction))) \<le> 1
   \<and> (snd (submitCounterTransaction env action amount walletAddress publicKeyHex signRawHash)
        = Inr h
      \<longrightarrow> length (posts (fst (submitCounterTransaction env action amount walletAddress
                                publicKeyHex signRawHash))) = 1)
   \<and> (snd (submitCounterTransactionNative env action amount walletAddress signTransaction)
        = Inr h
      \<longrightarrow> length (posts (fst (submitCounterTransactionNative env action amount walletAddress
                                signTransaction))) = 1)
   \<and> (Call_fetch q
        \<in> set (fst (submitCounterTransaction env action amount walletAddress publicKeyHex
                      signRawHash))
      \<longrightarrow> posts (fst (submitCounterTransaction env action amount walletAddress publicKeyHex
                        signRawHash)) = [Call_fetch q]
          \<and> url q = ''/api/sponsor-transaction'' \<and> http_method q = ''POST''
          \<and> (fetch env q = Inl e \<longrightarrow>
               snd (submitCounterTransaction env action amount walletAddress publicKeyHex
                      signRawHash) = Inl e)
          \<and> (fetch env q = Inr response \<and> \<not> ok response \<longrightarrow>
               (\<exists>e'. snd (submitCounterTransaction env action amount walletAddress publicKeyHex
                            signRawHash) = Inl e')))
   \<and> (Call_fetch q
        \<in> set (fst (submitCounterTransactionNative env action amount walletAddress
                      signTransaction))
      \<longrightarrow> posts (fst (submitCounterTransactionNative env action amount walletAddress
                        signTransaction)) = [Call_fetch q]
          \<and> url q = ''/api/sponsor-transaction'' \<and> http_method q = ''POST''
          \<and> (fetch env q = Inl e \<longrightarrow>
               snd (submitCounterTransactionNative env action amount walletAddress
                      signTransaction) = Inl e)
          \<and> (fetch env q = Inr response \<and> \<not> ok response \<longrightarrow>
               (\<exists>e'. snd (submitCounterTransactionNative env action amount walletAddress
                            signTransaction) = Inl e')))"
proof -
  have "posts (fst (submitCounterTransaction env action amount walletAddress publicKeyHex
                 signRawHash)) =
     (case build_simple env
             \<lparr>sender = SenderString walletAddress, withFeePayer = True,
              data_function = getCounterFunction env action, data_typeArguments = Some [],
              data_functionArguments = [amount], options_expireTimestamp = None\<rparr> of
        Inl e \<Rightarrow> []
      | Inr rawTxn \<Rightarrow>
     (case signRawHash
             \<lparr>address = walletAddress, chainType = ''aptos'',
              hash = ''0x'' @ toHex env (generateSigningMessageForTransaction env rawTxn)\<rparr> of
        Inl e \<Rightarrow> []
      | Inr signed \<Rightarrow>
     (case new_Ed25519PublicKey env (cleanPublicKey publicKeyHex) of
        Inl e \<Rightarrow> []
      | Inr pk \<Rightarrow>
     (case new_Ed25519Signature env (strip0x (signature signed)) of
        Inl e \<Rightarrow> []
      | Inr sg \<Rightarrow>
          [Call_fetch
             (sponsor_request
                (transaction_bcsToHex env
                   \<lparr>rawTransaction = rawTransaction rawTxn, feePayerAddress = None\<rparr>)
                (authenticator_bcsToHex env (AccountAuthenticatorEd25519 pk sg)))]))))"
    using custodial_posted_aux [where env = env and action = action and amount = amount
          and walletAddress = walletAddress and publicKeyHex = publicKeyHex
          and signRawHash = signRawHash]
    by (simp add: case_prod_beta)
  moreover have "posts (fst (submitCounterTransactionNative env action amount walletAddress
                   signTransaction)) =
     (if walletAddress = [] then []
      else
     (case AccountAddress_from env walletAddress of
        Inl e \<Rightarrow> []
      | Inr senderAddress \<Rightarrow>
     (case build_simple env
             \<lparr>sender = SenderAddress senderAddress, withFeePayer = True,
              data_function = getCounterFunction env action, data_typeArguments = None,
              data_functionArguments = [amount],
              options_expireTimestamp = Some (Date_now env div 1000 + 5 * 60)\<rparr> of
        Inl e \<Rightarrow> []
      | Inr simpleTx \<Rightarrow>
     (case signTransaction simpleTx of
        Inl e \<Rightarrow> []
      | Inr senderSig \<Rightarrow>
          [Call_fetch
             (sponsor_request (transaction_bcsToHex env simpleTx)
                (authenticator_bcsToHex env (authenticator senderSig)))]))))"
    using native_posted_aux [where env = env and action = action and amount = amount
          and walletAddress = walletAddress and signTransaction = signTransaction]
    by (simp add: case_prod_beta)
  moreover note
    custodial_posts_aux [where env = env and action = action and amount = amount
          and walletAddress = walletAddress and publicKeyHex = publicKeyHex
          and signRawHash = signRawHash and h = h and q = q and e = e and response = response]
    native_posts_aux [where env = env and action = action and amount = amount
          and walletAddress = walletAddress and signTransaction = signTransaction
          and h = h and q = q and e = e and response = response]
  ultimately show ?thesis
    by (simp only: case_prod_beta) blast
qed

theorem at_most_one_post_and_no_retry_witness:
  "rejecting_signRawHash
       \<lparr>address = ''0xABC'', chainType = ''aptos'', hash = ''0x0100''\<rparr>
     = Inl (Error ''User rejected the request'')
   \<and> posts (fst (submitCounterTransaction demo_env increment 5 ''0xABC'' demo_key
                   rejecting_signRawHash)) = []
   \<and> posts (fst (submitCounterTransactionNative demo_env increment 5 [] demo_signTransaction))
     = []
   \<and> snd (submitCounterTransaction demo_env increment 5 ''0xABC'' demo_key demo_signRawHash)
     = Inr (Some ''0xdeadbeef'')
   \<and> posts (fst (submitCounterTransaction demo_env increment 5 ''0xABC'' demo_key
                   demo_signRawHash))
     = [Call_fetch (sponsor_request ''0xaa'' ''0xbb'')]
   \<and> snd (submitCounterTransactionNative demo_env increment 5 ''0xABC'' demo_signTransaction)
     = Inr (Some ''0xdeadbeef'')
   \<and> posts (fst (submitCounterTransactionNative demo_env increment 5 ''0xABC''
                   demo_signTransaction))
     = [Call_fetch (sponsor_request ''0xaa'' ''0xbb'')]
   \<and> fetch offline_env (sponsor_request ''0xaa'' ''0xbb'') = Inl (Error ''Failed to fetch'')
   \<and> Call_fetch (sponsor_request ''0xaa'' ''0xbb'')
       \<in> set (fst (submitCounterTransaction offline_env increment 5 ''0xABC'' demo_key
                     demo_signRawHash))
   \<and> snd (submitCounterTransaction offline_env increment 5 ''0xABC'' demo_key demo_signRawHash)
     = Inl (Error ''Failed to fetch'')
   \<and> Call_fetch (sponsor_request ''0xaa'' ''0xbb'')
       \<in> set (fst (submitCounterTransactionNative offline_env increment 5 ''0xABC''
                     demo_signTransaction))
   \<and> snd (submitCounterTransactionNative offline_env increment 5 ''0xABC'' demo_signTransaction)
     = Inl (Error ''Failed to fetch'')
   \<and> fetch (refusing_env None) (sponsor_request ''0xaa'' ''0xbb'')
     = Inr \<lparr>ok = False, json = Inr \<lparr>details = None, transactionHash = None\<rparr>\<rparr>
   \<and> posts (fst (submitCounterTransaction (refusing_env None) increment 5 ''0xABC'' demo_key
                   demo_signRawHash))
     = [Call_fetch (sponsor_request ''0xaa'' ''0xbb'')]
   \<and> (\<exists>e'. snd (submitCounterTransaction (refusing_env None) increment 5 ''0xABC'' demo_key
                   demo_signRawHash) = Inl e')
   \<and> posts (fst (submitCounterTransactionNative (refusing_env None) increment 5 ''0xABC''
                   demo_signTransaction))
     = [Call_fetch (sponsor_request ''0xaa'' ''0xbb'')]
   \<and> (\<exists>e'. snd (submitCounterTransactionNative (refusing_env None) increment 5 ''0xABC''
                   demo_signTransaction) = Inl e')"
proof -
  have rejected: "posts (fst (submitCounterTransaction demo_env increment 5 ''0xABC'' demo_key
                   rejecting_signRawHash)) = []"
    using at_most_one_post_and_no_retry
          [where env = demo_env and action = increment and amount = 5
            and walletAddress = "''0xABC''" and publicKeyHex = demo_key
            and signRawHash = rejecting_signRawHash]
    by (simp add: demo_signing_env_facts rejecting_signRawHash_def)
  have no_address: "posts (fst (submitCounterTransactionNative demo_env increment 5 []
                   demo_signTransaction)) = []"
    using at_most_one_post_and_no_retry
          [where env = demo_env and action = increment and amount = 5
            and walletAddress = "[]" and signTransaction = demo_signTransaction]
    by simp
  have others:
  "snd (submitCounterTransaction demo_env increment 5 ''0xABC'' demo_key demo_signRawHash)
     = Inr (Some ''0xdeadbeef'')
   \<and> posts (fst (submitCounterTransaction demo_env increment 5 ''0xABC'' demo_key
                   demo_signRawHash))
     = [Call_fetch (sponsor_request ''0xaa'' ''0xbb'')]
   \<and> snd (submitCounterTransactionNative demo_env increment 5 ''0xABC'' demo_signTransaction)
     = Inr (Some ''0xdeadbeef'')
   \<and> posts (fst (submitCounterTransactionNative demo_env increment 5 ''0xABC''
                   demo_signTransaction))
     = [Call_fetch (sponsor_request ''0xaa'' ''0xbb'')]
   \<and> fetch offline_env (sponsor_request ''0xaa'' ''0xbb'') = Inl (Error ''Failed to fetch'')
   \<and> Call_fetch (sponsor_request ''0xaa'' ''0xbb'')
       \<in> set (fst (submitCounterTransaction offline_env increment 5 ''0xABC'' demo_key
                     demo_signRawHash))
   \<and> snd (submitCounterTransaction offline_env increment 5 ''0xABC'' demo_key demo_signRawHash)
     = Inl (Error ''Failed to fetch'')
   \<and> Call_fetch (sponsor_request ''0xaa'' ''0xbb'')
       \<in> set (fst (submitCounterTransactionNative offline_env increment 5 ''0xABC''
                     demo_signTransaction))
   \<and> snd (submitCounterTransactionNative offline_env increment 5 ''0xABC'' demo_signTransaction)
     = Inl (Error ''Failed to fetch'')
   \<and> fetch (refusing_env None) (sponsor_request ''0xaa'' ''0xbb'')
     = Inr \<lparr>ok = False, json = Inr \<lparr>details = None, transactionHash = None\<rparr>\<rparr>
   \<and> posts (fst (submitCounterTransaction (refusing_env None) increment 5 ''0xABC'' demo_key
                   demo_signRawHash))
     = [Call_fetch (sponsor_request ''0xaa'' ''0xbb'')]
   \<and> (\<exists>e'. snd (submitCounterTransaction (refusing_env None) increment 5 ''0xABC'' demo_key
                   demo_signRawHash) = Inl e')
   \<and> posts (fst (submitCounterTransactionNative (refusing_env None) increment 5 ''0xABC''
                   demo_signTransaction))
     = [Call_fetch (sponsor_request ''0xaa'' ''0xbb'')]
   \<and> (\<exists>e'. snd (submitCounterTransactionNative (refusing_env None) increment 5 ''0xABC''
                   demo_signTransaction) = Inl e')"
  using at_most_one_post_and_no_retry
          [where env = demo_env and action = increment and amount = 5
            and walletAddress = "''0xABC''" and publicKeyHex = demo_key
            and signRawHash = demo_signRawHash and signTransaction = demo_signTransaction
            and h = "Some ''0xdeadbeef''" and q = "sponsor_request ''0xaa'' ''0xbb''"
            and e = "Error ''Failed to fetch''"
            and response = "\<lparr>ok = False,
                 json = Inr \<lparr>details = None, transactionHash = None\<rparr>\<rparr>"]
        at_most_one_post_and_no_retry
          [where env = offline_env and action = increment and amount = 5
            and walletAddress = "''0xABC''" and publicKeyHex = demo_key
            and signRawHash = demo_signRawHash and signTransaction = demo_signTransaction
            and h = "Some ''0xdeadbeef''" and q = "sponsor_request ''0xaa'' ''0xbb''"
            and e = "Error ''Failed to fetch''"
            and response = "\<lparr>ok = False,
                 json = Inr \<lparr>details = None, transactionHash = None\<rparr>\<rparr>"]
        at_most_one_post_and_no_retry
          [where env = "refusing_env None" and action = increment and amount = 5
            and walletAddress = "''0xABC''" and publicKeyHex = demo_key
            and signRawHash = demo_signRawHash and signTransaction = demo_signTransaction
            and h = "Some ''0xdeadbeef''" and q = "sponsor_request ''0xaa'' ''0xbb''"
            and e = "Error ''Failed to fetch''"
            and response = "\<lparr>ok = False,
                 json = Inr \<lparr>details = None, transactionHash = None\<rparr>\<rparr>"]
  by (simp add: demo_custodial_run demo_native_run offline_custodial_run offline_native_run
      refusing_custodial_run refusing_native_run demo_posts posts_simps demo_fetch_in_calls
      demo_env_sel custodial_logged_def native_logged_def)
  from rejected no_address others show ?thesis
    by (simp add: rejecting_signRawHash_def)
qed

text \<open>
  The claim as first stated has every submission call post exactly once. The native-wallet
  flow given an empty wallet address fails before the sponsorship stage and posts nothing.
\<close>

theorem empty_wallet_call_posts_nothing:
  "posts (fst (submitCounterTransactionNative demo_env increment 5 [] demo_signTransaction)) = []
   \<and> length (posts (fst (submitCounterTransactionNative demo_env increment 5 []
                           demo_signTransaction))) \<noteq> 1"
  by (simp add: empty_wallet_native_run posts_simps)

section \<open>The custodial signature\<close>






end
